theory Spec2Isabelle
  imports Main "HOL-Library.Sublist"
begin

section \<open>Registration of prompted tasks and mixtures (promptsource/seqio\_tasks/tasks.py)\<close>

text \<open>
  The module is a script: it reads a manifest (a CSV file), walks a collection of prompt
  templates, registers one task (and sometimes a second, rank-classification task) for
  every template, and finally registers seven mixtures. The embedding below follows the
  script statement by statement. Exceptions are values: a pure function returns
  \<open>error + 'a\<close>; a statement that mutates a registry or a list returns
  \<open>(error \<times> 's) + 's\<close>, where the state beside the error is the state the exception
  leaves behind.
\<close>

subsection \<open>Python values used by the script\<close>

datatype error = KeyError | IndexError | ValueError | TypeError | OtherError string

text \<open>\<open>str.split(sep)\<close> for a non-empty separator: non-overlapping occurrences, left to right.\<close>

fun str_split_from :: "string \<Rightarrow> string \<Rightarrow> string \<Rightarrow> string list" where
  "str_split_from sep acc [] = [rev acc]"
| "str_split_from sep acc (c # cs) =
     (if sep \<noteq> [] \<and> prefix sep (c # cs)
      then rev acc # str_split_from sep [] (drop (length sep - 1) cs)
      else str_split_from sep (c # acc) cs)"

definition str_split :: "string \<Rightarrow> string \<Rightarrow> string list" where
  "str_split sep s = str_split_from sep [] s"

text \<open>
  \<open>str.strip()\<close>: the characters for which \<open>str.isspace\<close> holds are removed at both
  ends. A string is a list of bytes here, so these are the ten ASCII ones; the whitespace
  of Unicode beyond ASCII (U+0085, U+00A0 and others), which Python strips too, is not.
\<close>

definition isspace :: "char \<Rightarrow> bool" where
  "isspace c = ((of_char c :: nat) \<in> {9, 10, 11, 12, 13, 28, 29, 30, 31, 32})"

definition strip :: "string \<Rightarrow> string" where
  "strip s = rev (dropWhile isspace (rev (dropWhile isspace s)))"

definition startswith :: "string \<Rightarrow> string \<Rightarrow> bool" where
  "startswith s p = prefix p s"

definition endswith :: "string \<Rightarrow> string \<Rightarrow> bool" where
  "endswith s p = suffix p s"

text \<open>A list comprehension whose element expression may raise: the first failure wins.\<close>

fun map_result :: "('a \<Rightarrow> error + 'b) \<Rightarrow> 'a list \<Rightarrow> error + 'b list" where
  "map_result f [] = Inr []"
| "map_result f (x # xs) =
     (case f x of
        Inl e \<Rightarrow> Inl e
      | Inr y \<Rightarrow> (case map_result f xs of Inl e \<Rightarrow> Inl e | Inr ys \<Rightarrow> Inr (y # ys)))"

text \<open>A \<open>for\<close> loop over a list whose body updates a state and may raise.\<close>

fun for_each :: "('a \<Rightarrow> 's \<Rightarrow> (error \<times> 's) + 's) \<Rightarrow> 'a list \<Rightarrow> 's \<Rightarrow> (error \<times> 's) + 's" where
  "for_each body [] st = Inr st"
| "for_each body (x # xs) st =
     (case body x st of Inl e \<Rightarrow> Inl e | Inr st' \<Rightarrow> for_each body xs st')"

subsection \<open>Templates and the template collection\<close>

text \<open>
  The fields of a promptsource template that the script reads: \<open>template.name\<close>,
  \<open>template.jinja\<close>, \<open>template.metadata.metrics\<close> and
  \<open>template.metadata.original_task\<close>.
\<close>

record template =
  name :: string
  jinja :: string
  metrics :: "string list"
  original_task :: bool

text \<open>
  Modelled from the spec: the class \<open>promptsource.templates.TemplateCollection\<close> is not
  part of the source file. The spec describes it as a template collection keyed by
  (dataset, subset, template name). Here it is an association list from the pair
  (dataset, subset) to the templates of that pair; \<open>keys\<close> lists the pairs,
  \<open>get_dataset\<close> returns the templates of a pair (none when the pair is unknown),
  \<open>all_template_names\<close> lists their names, and indexing by a name raises \<open>KeyError\<close>
  when no template has it. The script calls \<open>get_dataset("anli", None)\<close> after it has
  removed \<open>anli\<close> from the collection and relies on the templates being returned, so
  \<open>get_dataset\<close> reads the collection as it was loaded and \<open>remove\<close> only shortens
  \<open>keys\<close>.
\<close>

type_synonym dataset_templates = "template list"

type_synonym template_collection = "((string \<times> string option) \<times> dataset_templates) list"

definition keys :: "template_collection \<Rightarrow> (string \<times> string option) list" where
  "keys all_templates = map fst all_templates"

definition get_dataset :: "template_collection \<Rightarrow> string \<Rightarrow> string option \<Rightarrow> dataset_templates" where
  "get_dataset all_templates dataset_name subset_name =
     (case map_of all_templates (dataset_name, subset_name) of None \<Rightarrow> [] | Some ts \<Rightarrow> ts)"

definition all_template_names :: "dataset_templates \<Rightarrow> string list" where
  "all_template_names dataset = map name dataset"

definition get_item :: "dataset_templates \<Rightarrow> string \<Rightarrow> error + template" where
  "get_item dataset template_name =
     (case find (\<lambda>t. name t = template_name) dataset of None \<Rightarrow> Inl KeyError | Some t \<Rightarrow> Inr t)"

subsection \<open>Metrics, tasks and the external functions\<close>

text \<open>
  The metric functions of \<open>t5.evaluation.metrics\<close> are names here; \<open>other_metric\<close>
  stands for a metric function of that module which the script does not name itself
  (the GLUE tables return some). \<open>rank_classification_metric n\<close> is
  \<open>functools.partial(rank_classification, num_classes=n)\<close>.
\<close>

datatype metric =
    bleu | rouge | span_squad | squad | trivia_qa | accuracy | sequence_accuracy
  | pearson_corrcoef | spearman_corrcoef | multirc_f1_over_all_answers | auc | coqa_f1
  | edit_distance | rank_classification_metric nat | other_metric string

definition GET_METRICS :: "string \<rightharpoonup> metric" where
  "GET_METRICS = map_of
     [(''BLEU'', bleu),
      (''ROUGE'', rouge),
      (''Span Squad'', span_squad),
      (''Squad'', squad),
      (''Trivia QA'', trivia_qa),
      (''Accuracy'', accuracy),
      (''Sequence Accuracy'', sequence_accuracy),
      (''Pearson Correlation'', pearson_corrcoef),
      (''Spearman Correlation'', spearman_corrcoef),
      (''MultiRC'', multirc_f1_over_all_answers),
      (''AUC'', auc),
      (''COQA F1'', coqa_f1),
      (''Edit Distance'', edit_distance),
      (''Other'', accuracy)]"

definition lookup_metric :: "string \<Rightarrow> error + metric" where
  "lookup_metric m = (case GET_METRICS m of None \<Rightarrow> Inl KeyError | Some f \<Rightarrow> Inr f)"

text \<open>
  The functions the script imports and calls but does not define. \<open>label_list_search\<close>
  is \<open>re.search(label_list_re, \<cdot>)\<close> with the three groups of a match; \<open>py_eval\<close> is the
  builtin \<open>eval\<close> on the second group, any outcome other than a list of strings being an
  error of the list comprehension that follows it.
\<close>

record env =
  get_task_name :: "string \<Rightarrow> string option \<Rightarrow> string \<Rightarrow> string"
  get_dataset_splits :: "string \<Rightarrow> string option \<Rightarrow> error + (string \<times> nat) list"
  get_glue_metric :: "string option \<Rightarrow> error + metric list"
  get_super_glue_metric :: "string option \<Rightarrow> error + metric list"
  label_list_search :: "string \<Rightarrow> (string \<times> string \<times> string) option"
  py_eval :: "string \<Rightarrow> error + string list"

datatype postprocessor =
    strip_whitespace
  | string_label_to_class_id "string list"
  | rank_classification_postprocessor

datatype preprocessor =
    tokenize
  | append_eos
  | rank_classification_preprocessor "string list"

text \<open>
  \<open>seqio.FunctionDataSource\<close> over \<open>functools.partial(get_tf_dataset, ...)\<close>: the
  arguments the partial application fixes, the splits and the example counts.
\<close>

record data_source =
  dataset_name_of :: string
  subset_name_of :: "string option"
  template_of :: template
  split_mapping_of :: "(string \<times> string) list"
  splits :: "string list"
  num_input_examples :: "(string \<times> nat) list"

record task =
  task_name :: string
  source :: data_source
  preprocessors :: "preprocessor list"
  output_features :: "(string \<times> bool) list"
  metric_fns :: "metric list"
  postprocess_fn :: postprocessor

subsection \<open>\<open>get_label_strings\<close> and \<open>maybe_get_class_id_postprocessor\<close>\<close>

definition get_label_strings :: "env \<Rightarrow> template \<Rightarrow> error + string list option" where
  "get_label_strings e template =
     (case str_split ''|||'' (jinja template) of
        _ # target # _ \<Rightarrow>
          (case label_list_search e (strip target) of
             None \<Rightarrow> Inr None
           | Some (before_label, group2, after_label) \<Rightarrow>
               (case py_eval e group2 of
                  Inl err \<Rightarrow> Inl err
                | Inr labels \<Rightarrow>
                    Inr (Some (map (\<lambda>label. before_label @ label @ after_label) labels))))
      | _ \<Rightarrow> Inl IndexError)"

definition maybe_get_class_id_postprocessor :: "env \<Rightarrow> template \<Rightarrow> error + postprocessor" where
  "maybe_get_class_id_postprocessor e template =
     (case get_label_strings e template of
        Inl err \<Rightarrow> Inl err
      | Inr (Some labels) \<Rightarrow> Inr (string_label_to_class_id labels)
      | Inr None \<Rightarrow> Inr strip_whitespace)"

subsection \<open>\<open>get_tf_dataset\<close>\<close>

text \<open>
  The loaders of the \<open>datasets\<close> library and of \<open>promptsource.seqio_tasks.utils\<close>
  read files and the network. Each takes the state of that outside world and returns
  the state it leaves beside its result, so a call is a function of its arguments and
  of the world it runs in. A \<open>DatasetDict\<close> is an association list from split names to
  datasets.
\<close>

record ('w, 'hf, 'tf) loaders =
  load_dataset :: "string \<Rightarrow> string option \<Rightarrow> 'w \<Rightarrow> (error + (string \<times> 'hf) list) \<times> 'w"
  apply_template :: "'hf \<Rightarrow> template \<Rightarrow> 'w \<Rightarrow> (error + 'hf) \<times> 'w"
  hf_dataset_to_tf_dataset :: "'hf \<Rightarrow> 'w \<Rightarrow> (error + 'tf) \<times> 'w"

definition get_tf_dataset ::
  "('w, 'hf, 'tf) loaders \<Rightarrow> string \<Rightarrow> bool \<Rightarrow> int option \<Rightarrow> string \<Rightarrow> string option
     \<Rightarrow> template \<Rightarrow> (string \<times> string) list \<Rightarrow> 'w \<Rightarrow> (error + 'tf) \<times> 'w" where
  "get_tf_dataset ld split shuffle_files seed dataset_name subset_name template split_mapping w =
     (case load_dataset ld dataset_name subset_name w of
        (Inl err, w1) \<Rightarrow> (Inl err, w1)
      | (Inr dataset, w1) \<Rightarrow>
          (case map_of split_mapping split of
             None \<Rightarrow> (Inl KeyError, w1)
           | Some k \<Rightarrow>
               (case map_of dataset k of
                  None \<Rightarrow> (Inl KeyError, w1)
                | Some d \<Rightarrow>
                    (case apply_template ld d template w1 of
                       (Inl err, w2) \<Rightarrow> (Inl err, w2)
                     | (Inr d', w2) \<Rightarrow> hf_dataset_to_tf_dataset ld d' w2))))"

subsection \<open>\<open>add_task\<close>\<close>

text \<open>
  \<open>seqio.TaskRegistry\<close> is the list of the registered tasks in the order of their
  registration; \<open>names()\<close> lists their names. The registry refuses a name that is
  already registered (\<open>ValueError\<close>). What else seqio checks of a task (the characters
  of its name, the signatures of its metric functions) is left out: the model registers
  every task that seqio registers, and some that seqio would refuse.
\<close>

definition names :: "task list \<Rightarrow> string list" where
  "names registry = map task_name registry"

definition TaskRegistry_add :: "task \<Rightarrow> task list \<Rightarrow> error + task list" where
  "TaskRegistry_add t registry =
     (if task_name t \<in> set (names registry) then Inl ValueError else Inr (registry @ [t]))"

text \<open>Lines 82 to 91: the metric list of the task.\<close>

definition task_metrics :: "env \<Rightarrow> string \<Rightarrow> string option \<Rightarrow> template \<Rightarrow> error + metric list" where
  "task_metrics e dataset_name subset_name template =
     (if dataset_name = ''glue'' then get_glue_metric e subset_name
      else if dataset_name = ''super_glue'' then
        (if subset_name = Some ''wsc.fixed'' \<or> subset_name = Some ''multirc''
         then Inr [accuracy]
         else get_super_glue_metric e subset_name)
      else map_result lookup_metric (metrics template))"

text \<open>
  Lines 93 to 108: the splits and the data source. An absent or empty \<open>split_mapping\<close>
  is replaced by the identity on the splits of the dataset; the example count of a split
  that the dataset does not have raises \<open>KeyError\<close>.
\<close>

definition make_data_source ::
  "env \<Rightarrow> string \<Rightarrow> string option \<Rightarrow> template \<Rightarrow> (string \<times> string) list option
     \<Rightarrow> error + data_source" where
  "make_data_source e dataset_name subset_name template split_mapping_arg =
     (case get_dataset_splits e dataset_name subset_name of
        Inl err \<Rightarrow> Inl err
      | Inr dataset_splits \<Rightarrow>
          (let split_mapping =
                 (case split_mapping_arg of
                    None \<Rightarrow> map (\<lambda>k. (k, k)) (map fst dataset_splits)
                  | Some [] \<Rightarrow> map (\<lambda>k. (k, k)) (map fst dataset_splits)
                  | Some m \<Rightarrow> m)
           in case map_result
                     (\<lambda>s. case map_of split_mapping s of
                             None \<Rightarrow> Inl KeyError
                           | Some k \<Rightarrow>
                               (case map_of dataset_splits k of
                                  None \<Rightarrow> Inl KeyError
                                | Some n \<Rightarrow> Inr (s, n)))
                     (map fst split_mapping) of
                Inl err \<Rightarrow> Inl err
              | Inr counts \<Rightarrow>
                  Inr \<lparr>dataset_name_of = dataset_name, subset_name_of = subset_name,
                       template_of = template, split_mapping_of = split_mapping,
                       splits = map fst split_mapping, num_input_examples = counts\<rparr>))"

definition default_output_features :: "(string \<times> bool) list" where
  "default_output_features = [(''inputs'', False), (''targets'', True)]"

text \<open>Line 80: \<open>task_name or utils.get_task_name(...)\<close>; \<open>None\<close> and the empty string are false.\<close>

definition task_name_or :: "env \<Rightarrow> string \<Rightarrow> string option \<Rightarrow> string \<Rightarrow> string option \<Rightarrow> string" where
  "task_name_or e dataset_name subset_name template_name task_name_arg =
     (case task_name_arg of
        None \<Rightarrow> get_task_name e dataset_name subset_name template_name
      | Some [] \<Rightarrow> get_task_name e dataset_name subset_name template_name
      | Some n \<Rightarrow> n)"

definition add_task ::
  "env \<Rightarrow> template_collection \<Rightarrow> string \<Rightarrow> string option \<Rightarrow> string \<Rightarrow> string option
     \<Rightarrow> (string \<times> string) list option \<Rightarrow> task list \<Rightarrow> (error \<times> task list) + task list" where
  "add_task e all_templates dataset_name subset_name template_name task_name_arg
       split_mapping_arg registry =
     (case get_item (get_dataset all_templates dataset_name subset_name) template_name of
        Inl err \<Rightarrow> Inl (err, registry)
      | Inr template \<Rightarrow>
     (let tname = task_name_or e dataset_name subset_name template_name task_name_arg
      in
     (case task_metrics e dataset_name subset_name template of
        Inl err \<Rightarrow> Inl (err, registry)
      | Inr ms \<Rightarrow>
     (case make_data_source e dataset_name subset_name template split_mapping_arg of
        Inl err \<Rightarrow> Inl (err, registry)
      | Inr src \<Rightarrow>
     (case maybe_get_class_id_postprocessor e template of
        Inl err \<Rightarrow> Inl (err, registry)
      | Inr post \<Rightarrow>
     (case TaskRegistry_add
             \<lparr>task_name = tname, source = src, preprocessors = [tokenize, append_eos],
              output_features = default_output_features, metric_fns = ms,
              postprocess_fn = post\<rparr> registry of
        Inl err \<Rightarrow> Inl (err, registry)
      | Inr registry1 \<Rightarrow>
     (case get_label_strings e template of
        Inl err \<Rightarrow> Inl (err, registry1)
      | Inr labels_opt \<Rightarrow>
     (case labels_opt of
        None \<Rightarrow> Inr registry1
      | Some [] \<Rightarrow> Inr registry1
      | Some labels \<Rightarrow>
     (case TaskRegistry_add
             \<lparr>task_name = tname @ ''_score_eval'', source = src,
              preprocessors = [rank_classification_preprocessor labels, tokenize, append_eos],
              output_features = default_output_features,
              metric_fns = [rank_classification_metric (length labels)],
              postprocess_fn = rank_classification_postprocessor\<rparr> registry1 of
        Inl err \<Rightarrow> Inl (err, registry1)
      | Inr registry2 \<Rightarrow> Inr registry2)))))))))"

subsection \<open>The manifest (lines 149 to 168)\<close>

text \<open>
  A row of \<open>csv.DictReader\<close> is a dictionary from column names to cells; the cell of
  a column that a short line does not reach is \<open>None\<close>. Reading a column that the
  header does not have raises \<open>KeyError\<close>.
\<close>

type_synonym row = "string \<rightharpoonup> string option"

record manifest_state =
  train_sets :: "row list"
  eval_sets :: "row list"
  do_train :: "(string option \<times> string option) list"
  do_eval :: "(string option \<times> string option) list"

definition truthy :: "string option \<Rightarrow> bool" where
  "truthy cell = (cell \<noteq> None \<and> cell \<noteq> Some [])"

definition process_row :: "row \<Rightarrow> manifest_state \<Rightarrow> (error \<times> manifest_state) + manifest_state" where
  "process_row row0 st =
     (case row0 ''skip'' of
        None \<Rightarrow> Inl (KeyError, st)
      | Some skip \<Rightarrow>
     (if truthy skip then Inr st
      else
     (case row0 ''subset'' of
        None \<Rightarrow> Inl (KeyError, st)
      | Some subset0 \<Rightarrow>
     (let subset = (if subset0 = Some [] then None else subset0);
          row = (if subset0 = Some [] then row0(''subset'' \<mapsto> None) else row0)
      in
     (case row ''do_train'' of
        None \<Rightarrow> Inl (KeyError, st)
      | Some train_cell \<Rightarrow>
     (case (if train_cell = Some ''TRUE''
            then (case row ''HF_name'' of
                    None \<Rightarrow> Inl (KeyError, st\<lparr>train_sets := train_sets st @ [row]\<rparr>)
                  | Some hf \<Rightarrow>
                      Inr (st\<lparr>train_sets := train_sets st @ [row],
                              do_train := do_train st @ [(hf, subset)]\<rparr>))
            else Inr st) of
        Inl err \<Rightarrow> Inl err
      | Inr st1 \<Rightarrow>
     (case row ''do_eval'' of
        None \<Rightarrow> Inl (KeyError, st1)
      | Some eval_cell \<Rightarrow>
     (if eval_cell = Some ''TRUE''
      then (case row ''HF_name'' of
              None \<Rightarrow> Inl (KeyError, st1\<lparr>eval_sets := eval_sets st1 @ [row]\<rparr>)
            | Some hf \<Rightarrow>
                Inr (st1\<lparr>eval_sets := eval_sets st1 @ [row],
                         do_eval := do_eval st1 @ [(hf, subset)]\<rparr>))
      else Inr st1))))))))"

definition empty_manifest_state :: manifest_state where
  "empty_manifest_state = \<lparr>train_sets = [], eval_sets = [], do_train = [], do_eval = []\<rparr>"

definition read_manifest :: "row list \<Rightarrow> (error \<times> manifest_state) + manifest_state" where
  "read_manifest reader = for_each process_row reader empty_manifest_state"

subsection \<open>Registration of the templates (lines 172 to 206)\<close>

record script_state =
  TaskRegistry :: "task list"
  train_mixture :: "string list"
  eval_mixture :: "string list"

text \<open>The body of the loop over the template names of one pair (lines 183 to 191).\<close>

definition register_template ::
  "env \<Rightarrow> template_collection \<Rightarrow> (string option \<times> string option) list
     \<Rightarrow> (string option \<times> string option) list \<Rightarrow> string \<Rightarrow> string option \<Rightarrow> string
     \<Rightarrow> script_state \<Rightarrow> (error \<times> script_state) + script_state" where
  "register_template e all_templates train_pairs eval_pairs dataset_name subset_name
       template_name st =
     (case add_task e all_templates dataset_name subset_name template_name None None
             (TaskRegistry st) of
        Inl (err, registry) \<Rightarrow> Inl (err, st\<lparr>TaskRegistry := registry\<rparr>)
      | Inr registry \<Rightarrow>
     (let DST_name = get_task_name e dataset_name subset_name template_name;
          st1 = st\<lparr>TaskRegistry := registry\<rparr>;
          st2 = (if (Some dataset_name, subset_name) \<in> set train_pairs
                 then st1\<lparr>train_mixture := train_mixture st1 @ [DST_name]\<rparr> else st1)
      in
     (if (Some dataset_name, subset_name) \<in> set eval_pairs
      then (case get_item (get_dataset all_templates dataset_name subset_name) template_name of
              Inl err \<Rightarrow> Inl (err, st2)
            | Inr template \<Rightarrow>
                (if original_task template
                 then Inr (st2\<lparr>eval_mixture := eval_mixture st2 @ [DST_name]\<rparr>)
                 else Inr st2))
      else Inr st2)))"

text \<open>The body of the loop over the keys of the collection (lines 177 to 191).\<close>

definition register_dataset ::
  "env \<Rightarrow> template_collection \<Rightarrow> (string option \<times> string option) list
     \<Rightarrow> (string option \<times> string option) list \<Rightarrow> string \<times> string option
     \<Rightarrow> script_state \<Rightarrow> (error \<times> script_state) + script_state" where
  "register_dataset e all_templates train_pairs eval_pairs key st =
     (case key of (dataset_name, subset_name) \<Rightarrow>
        (if (Some dataset_name, subset_name) \<notin> set (train_pairs @ eval_pairs) then Inr st
         else for_each
                (register_template e all_templates train_pairs eval_pairs dataset_name subset_name)
                (all_template_names (get_dataset all_templates dataset_name subset_name)) st))"

text \<open>The special case for ANLI (lines 196 to 206).\<close>

definition register_anli_template ::
  "env \<Rightarrow> template_collection \<Rightarrow> string \<Rightarrow> string \<Rightarrow> script_state
     \<Rightarrow> (error \<times> script_state) + script_state" where
  "register_anli_template e all_templates anli_round template_name st =
     (let tname = get_task_name e ''anli'' None template_name @ ''_'' @ anli_round;
          split_mapping =
            [(''train'', ''train_'' @ anli_round),
             (''validation'', ''dev_'' @ anli_round),
             (''test'', ''test_'' @ anli_round)]
      in case add_task e all_templates ''anli'' None template_name (Some tname)
                (Some split_mapping) (TaskRegistry st) of
           Inl (err, registry) \<Rightarrow> Inl (err, st\<lparr>TaskRegistry := registry\<rparr>)
         | Inr registry \<Rightarrow>
             Inr (st\<lparr>TaskRegistry := registry, eval_mixture := eval_mixture st @ [tname]\<rparr>))"

definition register_anli_round ::
  "env \<Rightarrow> template_collection \<Rightarrow> string \<Rightarrow> script_state
     \<Rightarrow> (error \<times> script_state) + script_state" where
  "register_anli_round e all_templates anli_round st =
     for_each (register_anli_template e all_templates anli_round)
       (all_template_names (get_dataset all_templates ''anli'' None)) st"

definition anli_rounds :: "string list" where
  "anli_rounds = [''r1'', ''r2'', ''r3'']"

definition empty_script_state :: script_state where
  "empty_script_state = \<lparr>TaskRegistry = [], train_mixture = [], eval_mixture = []\<rparr>"

text \<open>
  Lines 172 to 206: \<open>anli\<close> is removed from the keys, the loop over the remaining keys
  runs, then the ANLI rounds.
\<close>

definition register_tasks ::
  "env \<Rightarrow> template_collection \<Rightarrow> manifest_state \<Rightarrow> (error \<times> script_state) + script_state" where
  "register_tasks e all_templates m =
     (case for_each (register_dataset e all_templates (do_train m) (do_eval m))
             (filter (\<lambda>k. k \<noteq> (''anli'', None)) (keys all_templates)) empty_script_state of
        Inl err \<Rightarrow> Inl err
      | Inr st \<Rightarrow> for_each (register_anli_round e all_templates) anli_rounds st)"

subsection \<open>The mixtures (lines 219 to 296)\<close>

definition TASK_BLACKLIST :: "string list" where
  "TASK_BLACKLIST =
     [''hotpot_qa_distractor_Generate_Explanations'',
      ''hotpot_qa_fullwiki_Generate_Explanations'',
      ''hotpot_qa_distractor_Generate_Answer_and_Explanations'',
      ''hotpot_qa_fullwiki_Generate_Answer_and_Explanations'',
      ''hotpot_qa_fullwiki_Generate_Answer'',
      ''hotpot_qa_distractor_Generate_Answer'',
      ''hotpot_qa_distractor_Generate_Title_2'',
      ''hotpot_qa_fullwiki_Generate_Title_2'',
      ''hotpot_qa_fullwiki_Generate_Title_1'',
      ''hotpot_qa_distractor_Generate_Title_1'',
      ''hotpot_qa_distractor_Generate_Question'',
      ''hotpot_qa_fullwiki_Generate_Question'',
      ''tab_fact_tab_fact_tab_fact_3'',
      ''tab_fact_tab_fact_tab_fact_2'',
      ''tab_fact_tab_fact_tab_fact_1'',
      ''tab_fact_tab_fact_tab_fact_7'',
      ''tab_fact_tab_fact_tab_fact_4'',
      ''tab_fact_tab_fact_tab_fact_5'',
      ''tab_fact_tab_fact_tab_fact_6'',
      ''wiki_hop_masked_Choose_Best_Object_Candidate'',
      ''wiki_hop_masked_Indirect_Question_about_Birthplace_Citizenship_Place_of_Death'',
      ''narrativeqa_Template_05'',
      ''ecthr_cases_alleged_violation_prediction_silver_rationales'',
      ''gigaword_summarize_'']"

text \<open>\<open>seqio.mixing_rate_num_examples\<close>, alone or with a \<open>maximum\<close> fixed by \<open>functools.partial\<close>.\<close>

datatype rate = mixing_rate_num_examples "nat option"

record mixture =
  mixture_name :: string
  tasks :: "string list"
  default_rate :: rate

text \<open>\<open>task.split("_score_eval")[0]\<close>; the list that \<open>split\<close> returns is never empty.\<close>

definition before_score_eval :: "string \<Rightarrow> string" where
  "before_score_eval t = (case str_split ''_score_eval'' t of [] \<Rightarrow> [] | x # _ \<Rightarrow> x)"

text \<open>
  The seven calls of \<open>seqio.MixtureRegistry.add\<close>, in the order of the script: the name,
  the list that the comprehension builds, and the rate.
\<close>

definition mixture_entries :: "script_state \<Rightarrow> mixture list" where
  "mixture_entries st =
     [\<lparr>mixture_name = ''all_tasks_combined_max_1m'',
       tasks = filter (\<lambda>t. t \<notin> set TASK_BLACKLIST) (names (TaskRegistry st)),
       default_rate = mixing_rate_num_examples (Some 500000)\<rparr>,
      \<lparr>mixture_name = ''all_super_glue_tasks'',
       tasks = filter (\<lambda>t. startswith t ''super_glue'') (names (TaskRegistry st)),
       default_rate = mixing_rate_num_examples None\<rparr>,
      \<lparr>mixture_name = ''clean_tasks'',
       tasks = filter (\<lambda>t. t \<notin> set TASK_BLACKLIST) (train_mixture st),
       default_rate = mixing_rate_num_examples (Some 500000)\<rparr>,
      \<lparr>mixture_name = ''clean_eval_tasks'',
       tasks = filter (\<lambda>t. t \<notin> set TASK_BLACKLIST) (eval_mixture st),
       default_rate = mixing_rate_num_examples (Some 500000)\<rparr>,
      \<lparr>mixture_name = ''anli_eval_tasks'',
       tasks = filter (\<lambda>t. startswith t ''anli'') (eval_mixture st),
       default_rate = mixing_rate_num_examples (Some 500000)\<rparr>,
      \<lparr>mixture_name = ''score_eval_tasks'',
       tasks = filter (\<lambda>t. endswith t ''_score_eval'') (names (TaskRegistry st)),
       default_rate = mixing_rate_num_examples (Some 500000)\<rparr>,
      \<lparr>mixture_name = ''clean_score_eval_tasks'',
       tasks = filter (\<lambda>t. endswith t ''_score_eval''
                          \<and> before_score_eval t \<in> set (eval_mixture st)
                          \<and> before_score_eval t \<notin> set TASK_BLACKLIST)
                 (names (TaskRegistry st)),
       default_rate = mixing_rate_num_examples (Some 500000)\<rparr>]"

text \<open>
  \<open>seqio.MixtureRegistry\<close> is the list of the registered mixtures. seqio refuses a
  mixture that has no task (\<open>ValueError\<close>), and the exception ends the script with the
  mixtures registered so far.
\<close>

definition MixtureRegistry_add ::
  "mixture \<Rightarrow> mixture list \<Rightarrow> (error \<times> mixture list) + mixture list" where
  "MixtureRegistry_add m registry =
     (if tasks m = [] then Inl (ValueError, registry) else Inr (registry @ [m]))"

definition register_mixtures :: "script_state \<Rightarrow> (error \<times> mixture list) + mixture list" where
  "register_mixtures st = for_each MixtureRegistry_add (mixture_entries st) []"

subsection \<open>The script\<close>

definition script ::
  "env \<Rightarrow> row list \<Rightarrow> template_collection \<Rightarrow> error + script_state \<times> mixture list" where
  "script e reader all_templates =
     (case read_manifest reader of
        Inl (err, _) \<Rightarrow> Inl err
      | Inr m \<Rightarrow>
          (case register_tasks e all_templates m of
             Inl (err, _) \<Rightarrow> Inl err
           | Inr st \<Rightarrow>
               (case register_mixtures st of
                  Inl (err, _) \<Rightarrow> Inl err
                | Inr ms \<Rightarrow> Inr (st, ms))))"

subsection \<open>Observations used in the statements\<close>

text \<open>The state an operation leaves behind, whether it returned or raised.\<close>

definition final_state :: "(error \<times> 's) + 's \<Rightarrow> 's" where
  "final_state r = (case r of Inl (err, st) \<Rightarrow> st | Inr st \<Rightarrow> st)"

text \<open>The exception an operation raised, if any.\<close>

definition raised :: "(error \<times> 's) + 's \<Rightarrow> error option" where
  "raised r = (case r of Inl (err, st) \<Rightarrow> Some err | Inr st \<Rightarrow> None)"

text \<open>The five columns that the spec names.\<close>

definition manifest_columns :: "string list" where
  "manifest_columns = [''skip'', ''subset'', ''do_train'', ''do_eval'', ''HF_name'']"

text \<open>
  The reading of a row as the spec words it: a row is skipped when its \<open>skip\<close> field is
  not empty, a flag is set when its field is \<open>TRUE\<close>, an empty \<open>subset\<close> becomes
  \<open>None\<close>, and the pair of a row is its \<open>HF_name\<close> with its \<open>subset\<close> so converted.
\<close>

definition skipped :: "row \<Rightarrow> bool" where
  "skipped row = (case row ''skip'' of Some (Some v) \<Rightarrow> v \<noteq> [] | _ \<Rightarrow> False)"

definition flag_set :: "string \<Rightarrow> row \<Rightarrow> bool" where
  "flag_set column row = (row column = Some (Some ''TRUE''))"

definition with_subset_none :: "row \<Rightarrow> row" where
  "with_subset_none row =
     (if row ''subset'' = Some (Some []) then row(''subset'' \<mapsto> None) else row)"

definition cell :: "row \<Rightarrow> string \<Rightarrow> string option" where
  "cell row column = (case row column of None \<Rightarrow> None | Some c \<Rightarrow> c)"

definition row_pair :: "row \<Rightarrow> string option \<times> string option" where
  "row_pair row = (cell row ''HF_name'', cell (with_subset_none row) ''subset'')"

text \<open>
  The metric list of a task as the spec words it: by the dataset, the subset and the
  template of the task's data source.
\<close>

definition metrics_as_specified :: "env \<Rightarrow> task \<Rightarrow> bool" where
  "metrics_as_specified e t =
     (if dataset_name_of (source t) = ''glue''
      then get_glue_metric e (subset_name_of (source t)) = Inr (metric_fns t)
      else if dataset_name_of (source t) = ''super_glue''
      then (if subset_name_of (source t) = Some ''wsc.fixed'' \<or>
               subset_name_of (source t) = Some ''multirc''
            then metric_fns t = [accuracy]
            else get_super_glue_metric e (subset_name_of (source t)) = Inr (metric_fns t))
      else map GET_METRICS (metrics (template_of (source t))) = map Some (metric_fns t))"

text \<open>
  What one call of \<open>add_task\<close> appends to the registry: the task of the template,
  with the metric list above and the postprocessor that
  \<open>maybe_get_class_id_postprocessor\<close> returns for the template, alone or followed by its
  rank-classification task. The latter has the name of the former with \<open>_score_eval\<close>
  appended, the same data source, the metric \<open>rank_classification\<close> with the number of
  the label strings of the template, and the \<open>rank_classification\<close> postprocessor.
\<close>

definition primary_as_specified :: "env \<Rightarrow> task \<Rightarrow> bool" where
  "primary_as_specified e t =
     (metrics_as_specified e t \<and>
      maybe_get_class_id_postprocessor e (template_of (source t)) = Inr (postprocess_fn t))"

definition score_eval_of :: "env \<Rightarrow> task \<Rightarrow> task \<Rightarrow> bool" where
  "score_eval_of e p t =
     (task_name t = task_name p @ ''_score_eval'' \<and> source t = source p \<and>
      postprocess_fn t = rank_classification_postprocessor \<and>
      (case get_label_strings e (template_of (source p)) of
         Inr (Some labels) \<Rightarrow>
           labels \<noteq> [] \<and> metric_fns t = [rank_classification_metric (length labels)]
       | _ \<Rightarrow> False))"

definition registered_group :: "env \<Rightarrow> task list \<Rightarrow> bool" where
  "registered_group e g =
     (case g of
        [p] \<Rightarrow> primary_as_specified e p
      | [p, t] \<Rightarrow> primary_as_specified e p \<and> score_eval_of e p t
      | _ \<Rightarrow> False)"

text \<open>The state a run of the script ends in (the empty state when it raised).\<close>

definition run_state :: "error + script_state \<times> mixture list \<Rightarrow> script_state" where
  "run_state r = (case r of Inl err \<Rightarrow> empty_script_state | Inr (st, ms) \<Rightarrow> st)"

text \<open>What a run of the script leaves behind: name, metrics and postprocessor of every task,
  and the two lists of names.\<close>

definition task_summary :: "task \<Rightarrow> string \<times> metric list \<times> postprocessor" where
  "task_summary t = (task_name t, metric_fns t, postprocess_fn t)"

definition run_summary ::
  "error + script_state \<times> mixture list \<Rightarrow>
     error + (string \<times> metric list \<times> postprocessor) list \<times> string list \<times> string list" where
  "run_summary r =
     (case r of
        Inl err \<Rightarrow> Inl err
      | Inr (st, ms) \<Rightarrow> Inr (map task_summary (TaskRegistry st), train_mixture st, eval_mixture st))"

subsection \<open>Example inputs\<close>

text \<open>
  The task names of the deny-list show the shape of \<open>utils.get_task_name\<close> on names
  made of letters, digits and underscores: dataset, subset when there is one, template
  name, joined by underscores.
\<close>

definition example_task_name :: "string \<Rightarrow> string option \<Rightarrow> string \<Rightarrow> string" where
  "example_task_name d s t = d @ (case s of None \<Rightarrow> ''_'' | Some x \<Rightarrow> ''_'' @ x @ ''_'') @ t"

definition example_env :: env where
  \<open>example_env =
     \<lparr>get_task_name = example_task_name,
      get_dataset_splits =
        (\<lambda>d s. if d = ''anli''
               then Inr [(''train_r1'', 5), (''dev_r1'', 1), (''test_r1'', 1),
                         (''train_r2'', 5), (''dev_r2'', 1), (''test_r2'', 1),
                         (''train_r3'', 5), (''dev_r3'', 1), (''test_r3'', 1)]
               else Inr [(''train'', 10), (''validation'', 2)]),
      get_glue_metric = (\<lambda>s. Inr [other_metric ''matthews_corrcoef'']),
      get_super_glue_metric = (\<lambda>s. Inr [accuracy]),
      label_list_search =
        (\<lambda>s. if s = ''{{ ["yes", "no"][label] }}'' then Some ([], ''["yes", "no"]'', [])
             else None),
      py_eval =
        (\<lambda>s. if s = ''["yes", "no"]'' then Inr [''yes'', ''no'']
             else Inl (OtherError ''SyntaxError''))\<rparr>\<close>

definition template_labels :: template where
  \<open>template_labels =
     \<lparr>name = ''does_it_follow'',
      jinja = ''{{premise}} Does it follow that {{hypothesis}}? ||| {{ ["yes", "no"][label] }}'',
      metrics = [''Accuracy''], original_task = True\<rparr>\<close>

definition template_plain :: template where
  "template_plain =
     \<lparr>name = ''summarize'', jinja = ''Summarize: {{document}} ||| {{summary}}'',
      metrics = [''ROUGE''], original_task = False\<rparr>"

definition template_no_separator :: template where
  "template_no_separator =
     \<lparr>name = ''no_separator'', jinja = ''Summarize: {{document}}'',
      metrics = [''ROUGE''], original_task = True\<rparr>"

definition template_unknown_metric :: template where
  "template_unknown_metric =
     \<lparr>name = ''ranking'', jinja = ''{{query}} ||| {{answer}}'',
      metrics = [''Accuracy'', ''Mean Reciprocal Rank''], original_task = True\<rparr>"

definition template_summarize :: template where
  "template_summarize =
     \<lparr>name = ''summarize_'', jinja = ''Summarize: {{document}} ||| {{summary}}'',
      metrics = [''ROUGE''], original_task = True\<rparr>"

definition example_collection :: template_collection where
  "example_collection =
     [((''anli'', None), [template_labels]),
      ((''super_glue'', Some ''rte''), [template_labels]),
      ((''gigaword'', None), [template_summarize]),
      ((''xsum'', None), [template_plain])]"

definition broken_collection :: template_collection where
  "broken_collection = [((''xsum'', None), [template_no_separator, template_unknown_metric])]"

definition row_rte :: row where
  "row_rte =
     [''HF_name'' \<mapsto> Some ''super_glue'', ''subset'' \<mapsto> Some ''rte'',
      ''do_train'' \<mapsto> Some ''TRUE'', ''do_eval'' \<mapsto> Some ''TRUE'', ''skip'' \<mapsto> Some []]"

definition row_gigaword :: row where
  "row_gigaword =
     [''HF_name'' \<mapsto> Some ''gigaword'', ''subset'' \<mapsto> Some [],
      ''do_train'' \<mapsto> Some ''TRUE'', ''do_eval'' \<mapsto> Some [], ''skip'' \<mapsto> Some []]"

definition row_anli :: row where
  "row_anli =
     [''HF_name'' \<mapsto> Some ''anli'', ''subset'' \<mapsto> Some [],
      ''do_train'' \<mapsto> Some ''TRUE'', ''do_eval'' \<mapsto> Some ''TRUE'', ''skip'' \<mapsto> Some []]"

definition row_skipped :: row where
  "row_skipped =
     [''HF_name'' \<mapsto> Some ''xsum'', ''subset'' \<mapsto> Some [],
      ''do_train'' \<mapsto> Some ''TRUE'', ''do_eval'' \<mapsto> Some ''TRUE'', ''skip'' \<mapsto> Some ''FALSE'']"

definition example_manifest :: "row list" where
  "example_manifest = [row_rte, row_gigaword, row_anli, row_skipped]"

definition row_gigaword_commented :: row where
  "row_gigaword_commented = row_gigaword(''comment'' \<mapsto> Some ''summaries of news'')"

definition row_lowercase :: row where
  "row_lowercase =
     [''HF_name'' \<mapsto> Some ''xsum'', ''subset'' \<mapsto> Some [],
      ''do_train'' \<mapsto> Some ''True'', ''do_eval'' \<mapsto> Some ''true'', ''skip'' \<mapsto> Some []]"

text \<open>The two tasks that \<open>add_task\<close> registers for the template of \<open>super_glue\<close>, \<open>rte\<close>.\<close>

definition example_source :: data_source where
  "example_source =
     \<lparr>dataset_name_of = ''super_glue'', subset_name_of = Some ''rte'',
      template_of = template_labels,
      split_mapping_of = [(''train'', ''train''), (''validation'', ''validation'')],
      splits = [''train'', ''validation''],
      num_input_examples = [(''train'', 10), (''validation'', 2)]\<rparr>"

definition example_primary_task :: task where
  "example_primary_task =
     \<lparr>task_name = ''super_glue_rte_does_it_follow'', source = example_source,
      preprocessors = [tokenize, append_eos], output_features = default_output_features,
      metric_fns = [accuracy], postprocess_fn = string_label_to_class_id [''yes'', ''no'']\<rparr>"

definition example_score_task :: task where
  "example_score_task =
     \<lparr>task_name = ''super_glue_rte_does_it_follow_score_eval'', source = example_source,
      preprocessors = [rank_classification_preprocessor [''yes'', ''no''], tokenize, append_eos],
      output_features = default_output_features,
      metric_fns = [rank_classification_metric 2],
      postprocess_fn = rank_classification_postprocessor\<rparr>"

text \<open>
  Loaders for one dataset: the world is the number of downloads so far, a dataset is a
  list of pairs of texts.
\<close>

definition example_loaders :: "(nat, (string \<times> string) list, (string \<times> string) list) loaders" where
  "example_loaders =
     \<lparr>load_dataset =
        (\<lambda>d s w.
           (if d = ''super_glue'' \<and> s = Some ''rte''
            then Inr [(''train'', [(''A dog barks. An animal makes a sound.'', ''yes'')]),
                      (''validation'', [(''A cat sleeps. A cat runs.'', ''no'')])]
            else Inl (OtherError ''FileNotFoundError''),
            Suc w)),
      apply_template = (\<lambda>hf t w. (Inr (map (\<lambda>(x, y). (name t @ '': '' @ x, y)) hf), w)),
      hf_dataset_to_tf_dataset = (\<lambda>hf w. (Inr hf, w))\<rparr>"

definition example_split_mapping :: "(string \<times> string) list" where
  "example_split_mapping = [(''train'', ''train''), (''validation'', ''validation'')]"

section \<open>Properties\<close>

subsection \<open>Loops\<close>

lemma for_each_invariant:
  assumes "for_each body xs st = Inr st'" and "P st"
    and "\<And>x s s'. x \<in> set xs \<Longrightarrow> P s \<Longrightarrow> body x s = Inr s' \<Longrightarrow> P s'"
  shows "P st'"
  using assms
proof (induction xs arbitrary: st)
  case Nil
  then show ?case by simp
next
  case (Cons a xs)
  from Cons.prems(1) obtain s1 where a: "body a st = Inr s1" and r: "for_each body xs s1 = Inr st'"
    by (auto split: sum.splits)
  have s1: "P s1" using Cons.prems(3)[of a st s1] Cons.prems(2) a by simp
  show ?case
  proof (rule Cons.IH[OF r s1])
    fix x s s' assume "x \<in> set xs" "P s" "body x s = Inr s'"
    then show "P s'" using Cons.prems(3)[of x s s'] by simp
  qed
qed

lemma for_each_establish:
  assumes "for_each body xs st = Inr st'" and "x \<in> set xs"
    and "\<And>s s'. body x s = Inr s' \<Longrightarrow> Q s'"
    and "\<And>y s s'. y \<in> set xs \<Longrightarrow> Q s \<Longrightarrow> body y s = Inr s' \<Longrightarrow> Q s'"
  shows "Q st'"
  using assms
proof (induction xs arbitrary: st)
  case Nil
  then show ?case by simp
next
  case (Cons a xs)
  from Cons.prems(1) obtain s1 where a: "body a st = Inr s1" and r: "for_each body xs s1 = Inr st'"
    by (auto split: sum.splits)
  show ?case
  proof (cases "x = a")
    case True
    then have s1: "Q s1" using Cons.prems(3) a by simp
    show ?thesis
    proof (rule for_each_invariant[where P = Q, OF r s1])
      fix y s s' assume "y \<in> set xs" "Q s" "body y s = Inr s'"
      then show "Q s'" using Cons.prems(4)[of y s s'] by simp
    qed
  next
    case False
    then have x: "x \<in> set xs" using Cons.prems(2) by simp
    show ?thesis
    proof (rule Cons.IH[OF r x])
      fix s s' assume "body x s = Inr s'"
      then show "Q s'" by (rule Cons.prems(3))
    next
      fix y s s' assume "y \<in> set xs" "Q s" "body y s = Inr s'"
      then show "Q s'" using Cons.prems(4)[of y s s'] by simp
    qed
  qed
qed

lemma for_each_appends:
  assumes "for_each body xs st = Inr st'"
    and "\<And>x s s'. body x s = Inr s' \<Longrightarrow> f s' = f s @ g x"
  shows "f st' = f st @ concat (map g xs)"
  using assms
proof (induction xs arbitrary: st)
  case Nil
  then show ?case by simp
next
  case (Cons a xs)
  from Cons.prems(1) obtain s1 where a: "body a st = Inr s1" and r: "for_each body xs s1 = Inr st'"
    by (auto split: sum.splits)
  have "f st' = f s1 @ concat (map g xs)" using Cons.IH[OF r] Cons.prems(2) by simp
  then show ?case using Cons.prems(2)[OF a] by simp
qed

lemma concat_map_if:
  "concat (map (\<lambda>x. if P x then [f x] else []) xs) = map f (filter P xs)"
  by (induction xs) simp_all

subsection \<open>\<open>get_label_strings\<close> needs the separator\<close>

lemma str_split_from_no_sep:
  "\<not> sublist sep s \<Longrightarrow> str_split_from sep acc s = [rev acc @ s]"
  by (induction s arbitrary: acc) (simp_all add: sublist_Cons_right)

lemma get_label_strings_no_sep:
  "\<not> sublist ''|||'' (jinja template) \<Longrightarrow> get_label_strings e template = Inl IndexError"
  by (simp add: get_label_strings_def str_split_def str_split_from_no_sep)

text \<open>
  Claim C9. \<open>get_label_strings\<close> is partial: for a template whose jinja string does
  not contain the separator \<open>|||\<close>, indexing the result of \<open>split\<close> at 1 raises
  \<open>IndexError\<close>; \<open>add_task\<close>, which calls \<open>get_label_strings\<close> before it registers
  anything, raises for such a template too and leaves the registry as it was.
\<close>

theorem get_label_strings_partial:
  assumes "\<not> sublist ''|||'' (jinja template)"
  shows "get_label_strings e template = Inl IndexError \<and>
         (get_item (get_dataset all_templates d s) n = Inr template \<longrightarrow>
            (\<exists>err. add_task e all_templates d s n tn sm registry = Inl (err, registry)))"
proof -
  have g: "get_label_strings e template = Inl IndexError"
    using assms by (rule get_label_strings_no_sep)
  then have "maybe_get_class_id_postprocessor e template = Inl IndexError"
    by (simp add: maybe_get_class_id_postprocessor_def)
  then have "get_item (get_dataset all_templates d s) n = Inr template \<Longrightarrow>
      \<exists>err. add_task e all_templates d s n tn sm registry = Inl (err, registry)"
    by (simp add: add_task_def Let_def split: sum.splits)
  with g show ?thesis by blast
qed

theorem get_label_strings_partial_witness:
  "\<not> sublist ''|||'' (jinja template_no_separator) \<and>
   get_label_strings example_env template_no_separator = Inl IndexError \<and>
   get_item (get_dataset broken_collection ''xsum'' None) ''no_separator'' = Inr template_no_separator \<and>
   add_task example_env broken_collection ''xsum'' None ''no_separator'' None None [] =
     Inl (IndexError, [])"
proof -
  have h: "\<not> sublist ''|||'' (jinja template_no_separator)"
    by (simp add: template_no_separator_def sublist_Cons_right)
  have i: "get_item (get_dataset broken_collection ''xsum'' None) ''no_separator'' =
        Inr template_no_separator"
    by (simp add: get_item_def get_dataset_def broken_collection_def template_no_separator_def)
  have m: "task_metrics example_env ''xsum'' None template_no_separator = Inr [rouge]"
    by (simp add: task_metrics_def template_no_separator_def lookup_metric_def GET_METRICS_def)
  have d: "\<exists>src. make_data_source example_env ''xsum'' None template_no_separator None = Inr src"
    by (simp add: make_data_source_def example_env_def)
  from get_label_strings_partial[OF h, of example_env broken_collection "''xsum''" None
      "''no_separator''" None None "[]"] i
  obtain err where g: "get_label_strings example_env template_no_separator = Inl IndexError"
    and a: "add_task example_env broken_collection ''xsum'' None ''no_separator'' None None [] =
      Inl (err, [])"
    by blast
  from g have "maybe_get_class_id_postprocessor example_env template_no_separator = Inl IndexError"
    by (simp add: maybe_get_class_id_postprocessor_def)
  with a i m d have "err = IndexError"
    by (auto simp: add_task_def Let_def)
  with h g i a show ?thesis by simp
qed

subsection \<open>\<open>get_tf_dataset\<close> ignores \<open>shuffle_files\<close> and \<open>seed\<close>\<close>

text \<open>
  Claim C7. For every split, dataset, subset, template and split mapping, two calls of
  \<open>get_tf_dataset\<close> that differ only in \<open>shuffle_files\<close> and \<open>seed\<close> and run in the same
  state of the outside world return the same dataset (or raise the same error) and leave
  the same state: both arguments are deleted before anything is loaded. What is returned
  is pinned as well: when the loaders succeed it is the split that the mapping names,
  templated and converted; a split that the mapping or the loaded dataset does not have
  raises \<open>KeyError\<close>, and an error of a loader is passed on.
\<close>

theorem get_tf_dataset_ignores_shuffle_and_seed:
  "get_tf_dataset ld split shuffle_files seed d s t m w =
     get_tf_dataset ld split shuffle_files' seed' d s t m w \<and>
   (load_dataset ld d s w = (Inr dataset, w') \<and> map_of m split = Some k \<and>
    map_of dataset k = Some hf \<and> apply_template ld hf t w' = (Inr hf', w'') \<longrightarrow>
      get_tf_dataset ld split shuffle_files seed d s t m w = hf_dataset_to_tf_dataset ld hf' w'') \<and>
   (load_dataset ld d s w = (Inr dataset, w') \<and> map_of m split = Some k \<and>
    map_of dataset k = Some hf \<and> apply_template ld hf t w' = (Inl err, w'') \<longrightarrow>
      get_tf_dataset ld split shuffle_files seed d s t m w = (Inl err, w'')) \<and>
   (load_dataset ld d s w = (Inr dataset, w') \<and>
    (map_of m split = None \<or> (map_of m split = Some k \<and> map_of dataset k = None)) \<longrightarrow>
      get_tf_dataset ld split shuffle_files seed d s t m w = (Inl KeyError, w')) \<and>
   (load_dataset ld d s w = (Inl err, w') \<longrightarrow>
      get_tf_dataset ld split shuffle_files seed d s t m w = (Inl err, w'))"
  by (auto simp: get_tf_dataset_def)

theorem get_tf_dataset_ignores_shuffle_and_seed_witness:
  "load_dataset example_loaders ''super_glue'' (Some ''rte'') 0 =
     (Inr [(''train'', [(''A dog barks. An animal makes a sound.'', ''yes'')]),
           (''validation'', [(''A cat sleeps. A cat runs.'', ''no'')])], 1) \<and>
   map_of example_split_mapping ''validation'' = Some ''validation'' \<and>
   apply_template example_loaders [(''A cat sleeps. A cat runs.'', ''no'')] template_labels 1 =
     (Inr [(''does_it_follow: A cat sleeps. A cat runs.'', ''no'')], 1) \<and>
   get_tf_dataset example_loaders ''validation'' True (Some 7) ''super_glue'' (Some ''rte'')
       template_labels example_split_mapping 0 =
     (Inr [(''does_it_follow: A cat sleeps. A cat runs.'', ''no'')], 1) \<and>
   get_tf_dataset example_loaders ''validation'' False None ''super_glue'' (Some ''rte'')
       template_labels example_split_mapping 0 =
     (Inr [(''does_it_follow: A cat sleeps. A cat runs.'', ''no'')], 1) \<and>
   get_tf_dataset example_loaders ''test'' True (Some 7) ''super_glue'' (Some ''rte'')
       template_labels example_split_mapping 0 = (Inl KeyError, 1)"
proof -
  have l: "load_dataset example_loaders ''super_glue'' (Some ''rte'') 0 =
     (Inr [(''train'', [(''A dog barks. An animal makes a sound.'', ''yes'')]),
           (''validation'', [(''A cat sleeps. A cat runs.'', ''no'')])], 1)"
    by (simp add: example_loaders_def)
  have m: "map_of example_split_mapping ''validation'' = Some ''validation''"
    "map_of example_split_mapping ''test'' = None"
    by (simp_all add: example_split_mapping_def)
  have d: "map_of [(''train'', [(''A dog barks. An animal makes a sound.'', ''yes'')]),
           (''validation'', [(''A cat sleeps. A cat runs.'', ''no'')])] ''validation'' =
      Some [(''A cat sleeps. A cat runs.'', ''no'')]"
    by simp
  have a: "apply_template example_loaders [(''A cat sleeps. A cat runs.'', ''no'')]
      template_labels 1 = (Inr [(''does_it_follow: A cat sleeps. A cat runs.'', ''no'')], 1)"
    by (simp add: example_loaders_def template_labels_def)
  have c: "hf_dataset_to_tf_dataset example_loaders
      [(''does_it_follow: A cat sleeps. A cat runs.'', ''no'')] 1 =
      (Inr [(''does_it_follow: A cat sleeps. A cat runs.'', ''no'')], 1)"
    by (simp add: example_loaders_def)
  note t = get_tf_dataset_ignores_shuffle_and_seed[where ld = example_loaders and w = 0
      and d = "''super_glue''" and s = "Some ''rte''" and t = template_labels
      and m = example_split_mapping and w' = 1 and w'' = 1
      and dataset = "[(''train'', [(''A dog barks. An animal makes a sound.'', ''yes'')]),
           (''validation'', [(''A cat sleeps. A cat runs.'', ''no'')])]"]
  from t[where split = "''validation''" and shuffle_files = True and seed = "Some 7"
      and k = "''validation''" and hf = "[(''A cat sleeps. A cat runs.'', ''no'')]"
      and hf' = "[(''does_it_follow: A cat sleeps. A cat runs.'', ''no'')]"] l m d a c
  have 1: "get_tf_dataset example_loaders ''validation'' True (Some 7) ''super_glue'' (Some ''rte'')
       template_labels example_split_mapping 0 =
     (Inr [(''does_it_follow: A cat sleeps. A cat runs.'', ''no'')], 1)"
    by simp
  from t[where split = "''validation''" and shuffle_files = True and seed = "Some 7"
      and shuffle_files' = False and seed' = None] 1
  have 2: "get_tf_dataset example_loaders ''validation'' False None ''super_glue'' (Some ''rte'')
       template_labels example_split_mapping 0 =
     (Inr [(''does_it_follow: A cat sleeps. A cat runs.'', ''no'')], 1)"
    by simp
  from t[where split = "''test''" and shuffle_files = True and seed = "Some 7"] l m
  have 3: "get_tf_dataset example_loaders ''test'' True (Some 7) ''super_glue'' (Some ''rte'')
       template_labels example_split_mapping 0 = (Inl KeyError, 1)"
    by simp
  from l m(1) a 1 2 3 show ?thesis by blast
qed

subsection \<open>The deny-list and the mixtures\<close>

lemma blacklist_not_super_glue:
  "t \<in> set TASK_BLACKLIST \<Longrightarrow> \<not> startswith t ''super_glue''"
  by (auto simp: TASK_BLACKLIST_def startswith_def)

lemma blacklist_not_anli:
  "t \<in> set TASK_BLACKLIST \<Longrightarrow> \<not> startswith t ''anli''"
  by (auto simp: TASK_BLACKLIST_def startswith_def)

lemma blacklist_not_score_eval:
  "t \<in> set TASK_BLACKLIST \<Longrightarrow> \<not> endswith t ''_score_eval''"
  by (auto simp: TASK_BLACKLIST_def endswith_def suffix_to_prefix)

lemma for_each_MixtureRegistry_add:
  "set (final_state (for_each MixtureRegistry_add xs registry)) \<subseteq> set registry \<union> set xs"
proof (induction xs arbitrary: registry)
  case Nil
  then show ?case by (simp add: final_state_def)
next
  case (Cons x xs)
  show ?case
  proof (cases "tasks x = []")
    case True
    then show ?thesis by (auto simp: MixtureRegistry_add_def final_state_def)
  next
    case False
    then have "for_each MixtureRegistry_add (x # xs) registry =
        for_each MixtureRegistry_add xs (registry @ [x])"
      by (simp add: MixtureRegistry_add_def)
    then show ?thesis using Cons.IH[of "registry @ [x]"] by auto
  qed
qed

lemma for_each_MixtureRegistry_add_Inr:
  "for_each MixtureRegistry_add xs registry = Inr r \<Longrightarrow> r = registry @ xs"
proof (induction xs arbitrary: registry)
  case Nil
  then show ?case by simp
next
  case (Cons x xs)
  have "MixtureRegistry_add x registry =
      (if tasks x = [] then Inl (ValueError, registry) else Inr (registry @ [x]))"
    by (simp add: MixtureRegistry_add_def)
  with Cons.prems have "for_each MixtureRegistry_add xs (registry @ [x]) = Inr r"
    by (auto split: if_splits)
  then have "r = (registry @ [x]) @ xs" by (rule Cons.IH)
  then show ?case by simp
qed

text \<open>
  Claim C1. No name of \<open>TASK_BLACKLIST\<close> is in the task list of any of the seven
  mixtures that the script builds, nor of any mixture in the registry when the script
  ends. Four mixtures filter the deny-list out; the other three select names that
  start with \<open>super_glue\<close> or \<open>anli\<close> or end with \<open>_score_eval\<close>, which no name of the
  deny-list does.
\<close>

theorem mixtures_exclude_blacklist:
  "(\<forall>m \<in> set (mixture_entries st). \<forall>t \<in> set (tasks m). t \<notin> set TASK_BLACKLIST) \<and>
   (\<forall>m \<in> set (final_state (register_mixtures st)).
      \<forall>t \<in> set (tasks m). t \<notin> set TASK_BLACKLIST)"
proof -
  have e: "\<forall>m \<in> set (mixture_entries st). \<forall>t \<in> set (tasks m). t \<notin> set TASK_BLACKLIST"
    using blacklist_not_super_glue blacklist_not_anli blacklist_not_score_eval
    by (auto simp: mixture_entries_def)
  have "set (final_state (register_mixtures st)) \<subseteq> set (mixture_entries st)"
    using for_each_MixtureRegistry_add[of "mixture_entries st" "[]"]
    by (simp add: register_mixtures_def)
  with e show ?thesis by blast
qed

text \<open>A run of the script on a manifest of four rows and a collection of four datasets.\<close>

lemmas example_defs = example_env_def example_collection_def example_manifest_def
  row_rte_def row_gigaword_def row_anli_def row_skipped_def template_labels_def
  template_summarize_def template_plain_def example_task_name_def

lemmas script_defs = script_def read_manifest_def process_row_def truthy_def
  empty_manifest_state_def register_tasks_def register_dataset_def register_template_def
  register_anli_round_def register_anli_template_def anli_rounds_def empty_script_state_def
  keys_def all_template_names_def
  add_task_def get_item_def get_dataset_def
  task_metrics_def make_data_source_def maybe_get_class_id_postprocessor_def
  get_label_strings_def str_split_def strip_def isspace_def task_name_or_def
  TaskRegistry_add_def names_def lookup_metric_def GET_METRICS_def Let_def
  register_mixtures_def mixture_entries_def MixtureRegistry_add_def TASK_BLACKLIST_def
  startswith_def endswith_def suffix_to_prefix before_score_eval_def

lemma example_run_summary:
  "run_summary (script example_env example_manifest example_collection) =
   Inr ([(''super_glue_rte_does_it_follow'', [accuracy], string_label_to_class_id [''yes'', ''no'']),
         (''super_glue_rte_does_it_follow_score_eval'', [rank_classification_metric 2],
          rank_classification_postprocessor),
         (''gigaword_summarize_'', [rouge], strip_whitespace),
         (''anli_does_it_follow_r1'', [accuracy], string_label_to_class_id [''yes'', ''no'']),
         (''anli_does_it_follow_r1_score_eval'', [rank_classification_metric 2],
          rank_classification_postprocessor),
         (''anli_does_it_follow_r2'', [accuracy], string_label_to_class_id [''yes'', ''no'']),
         (''anli_does_it_follow_r2_score_eval'', [rank_classification_metric 2],
          rank_classification_postprocessor),
         (''anli_does_it_follow_r3'', [accuracy], string_label_to_class_id [''yes'', ''no'']),
         (''anli_does_it_follow_r3_score_eval'', [rank_classification_metric 2],
          rank_classification_postprocessor)],
        [''super_glue_rte_does_it_follow'', ''gigaword_summarize_''],
        [''super_glue_rte_does_it_follow'', ''anli_does_it_follow_r1'',
         ''anli_does_it_follow_r2'', ''anli_does_it_follow_r3''])"
  by (simp add: run_summary_def task_summary_def script_defs example_defs)

lemma example_run:
  "\<exists>st. script example_env example_manifest example_collection = Inr (st, mixture_entries st) \<and>
     names (TaskRegistry st) =
       [''super_glue_rte_does_it_follow'', ''super_glue_rte_does_it_follow_score_eval'',
        ''gigaword_summarize_'',
        ''anli_does_it_follow_r1'', ''anli_does_it_follow_r1_score_eval'',
        ''anli_does_it_follow_r2'', ''anli_does_it_follow_r2_score_eval'',
        ''anli_does_it_follow_r3'', ''anli_does_it_follow_r3_score_eval''] \<and>
     train_mixture st = [''super_glue_rte_does_it_follow'', ''gigaword_summarize_''] \<and>
     eval_mixture st =
       [''super_glue_rte_does_it_follow'', ''anli_does_it_follow_r1'',
        ''anli_does_it_follow_r2'', ''anli_does_it_follow_r3'']"
proof -
  obtain st ms where s: "script example_env example_manifest example_collection = Inr (st, ms)"
    using example_run_summary
    by (cases "script example_env example_manifest example_collection")
      (auto simp: run_summary_def)
  then have ms: "ms = mixture_entries st"
    using for_each_MixtureRegistry_add_Inr[of "mixture_entries st" "[]" ms]
    by (auto simp: script_def register_mixtures_def split: sum.splits prod.splits)
  have "map task_summary (TaskRegistry st) =
     [(''super_glue_rte_does_it_follow'', [accuracy], string_label_to_class_id [''yes'', ''no'']),
         (''super_glue_rte_does_it_follow_score_eval'', [rank_classification_metric 2],
          rank_classification_postprocessor),
         (''gigaword_summarize_'', [rouge], strip_whitespace),
         (''anli_does_it_follow_r1'', [accuracy], string_label_to_class_id [''yes'', ''no'']),
         (''anli_does_it_follow_r1_score_eval'', [rank_classification_metric 2],
          rank_classification_postprocessor),
         (''anli_does_it_follow_r2'', [accuracy], string_label_to_class_id [''yes'', ''no'']),
         (''anli_does_it_follow_r2_score_eval'', [rank_classification_metric 2],
          rank_classification_postprocessor),
         (''anli_does_it_follow_r3'', [accuracy], string_label_to_class_id [''yes'', ''no'']),
         (''anli_does_it_follow_r3_score_eval'', [rank_classification_metric 2],
          rank_classification_postprocessor)]"
    and t: "train_mixture st = [''super_glue_rte_does_it_follow'', ''gigaword_summarize_'']"
    and e: "eval_mixture st =
       [''super_glue_rte_does_it_follow'', ''anli_does_it_follow_r1'',
        ''anli_does_it_follow_r2'', ''anli_does_it_follow_r3'']"
    using example_run_summary s by (simp_all add: run_summary_def)
  then have "map fst (map task_summary (TaskRegistry st)) =
       [''super_glue_rte_does_it_follow'', ''super_glue_rte_does_it_follow_score_eval'',
        ''gigaword_summarize_'',
        ''anli_does_it_follow_r1'', ''anli_does_it_follow_r1_score_eval'',
        ''anli_does_it_follow_r2'', ''anli_does_it_follow_r2_score_eval'',
        ''anli_does_it_follow_r3'', ''anli_does_it_follow_r3_score_eval'']"
    by simp
  then have n: "names (TaskRegistry st) =
       [''super_glue_rte_does_it_follow'', ''super_glue_rte_does_it_follow_score_eval'',
        ''gigaword_summarize_'',
        ''anli_does_it_follow_r1'', ''anli_does_it_follow_r1_score_eval'',
        ''anli_does_it_follow_r2'', ''anli_does_it_follow_r2_score_eval'',
        ''anli_does_it_follow_r3'', ''anli_does_it_follow_r3_score_eval'']"
    by (simp add: names_def task_summary_def comp_def)
  from s ms n t e show ?thesis by blast
qed

theorem mixtures_exclude_blacklist_witness:
  "\<exists>st ms m. script example_env example_manifest example_collection = Inr (st, ms) \<and>
     ''gigaword_summarize_'' \<in> set (names (TaskRegistry st)) \<and>
     ''gigaword_summarize_'' \<in> set (train_mixture st) \<and>
     ''gigaword_summarize_'' \<in> set TASK_BLACKLIST \<and>
     map mixture_name ms =
       [''all_tasks_combined_max_1m'', ''all_super_glue_tasks'', ''clean_tasks'',
        ''clean_eval_tasks'', ''anli_eval_tasks'', ''score_eval_tasks'',
        ''clean_score_eval_tasks''] \<and>
     m \<in> set ms \<and> mixture_name m = ''clean_tasks'' \<and>
     tasks m = [''super_glue_rte_does_it_follow''] \<and>
     ''super_glue_rte_does_it_follow'' \<notin> set TASK_BLACKLIST \<and>
     ''gigaword_summarize_'' \<notin> set (tasks m)"
proof -
  from example_run obtain st where
    s: "script example_env example_manifest example_collection = Inr (st, mixture_entries st)"
    and n: "names (TaskRegistry st) =
       [''super_glue_rte_does_it_follow'', ''super_glue_rte_does_it_follow_score_eval'',
        ''gigaword_summarize_'',
        ''anli_does_it_follow_r1'', ''anli_does_it_follow_r1_score_eval'',
        ''anli_does_it_follow_r2'', ''anli_does_it_follow_r2_score_eval'',
        ''anli_does_it_follow_r3'', ''anli_does_it_follow_r3_score_eval'']"
    and t: "train_mixture st = [''super_glue_rte_does_it_follow'', ''gigaword_summarize_'']"
    by blast
  define m where "m = mixture_entries st ! 2"
  have b: "''gigaword_summarize_'' \<in> set TASK_BLACKLIST"
    by (simp add: TASK_BLACKLIST_def)
  have nb: "''super_glue_rte_does_it_follow'' \<notin> set TASK_BLACKLIST"
    by (simp add: TASK_BLACKLIST_def)
  have mm: "m \<in> set (mixture_entries st)" "mixture_name m = ''clean_tasks''"
    "tasks m = filter (\<lambda>t. t \<notin> set TASK_BLACKLIST) (train_mixture st)"
    by (simp_all add: m_def mixture_entries_def)
  have ns: "map mixture_name (mixture_entries st) =
       [''all_tasks_combined_max_1m'', ''all_super_glue_tasks'', ''clean_tasks'',
        ''clean_eval_tasks'', ''anli_eval_tasks'', ''score_eval_tasks'',
        ''clean_score_eval_tasks'']"
    by (simp add: mixture_entries_def)
  have tm: "tasks m = [''super_glue_rte_does_it_follow'']"
    using mm(3) t b nb by simp
  then have i: "''super_glue_rte_does_it_follow'' \<in> set (tasks m)" by simp
  from mixtures_exclude_blacklist[of st] mm(1) i b
  have "''super_glue_rte_does_it_follow'' \<notin> set TASK_BLACKLIST"
    "''gigaword_summarize_'' \<notin> set (tasks m)"
    by blast+
  with s n t b mm ns tm show ?thesis
    by (intro exI[of _ st] exI[of _ "mixture_entries st"] exI[of _ m]) simp
qed

subsection \<open>What \<open>add_task\<close> registers\<close>

lemma add_task_Inr:
  assumes "add_task e tc d s n tn sm reg = Inr reg'"
  shows "\<exists>template ms src post labels_opt.
    get_item (get_dataset tc d s) n = Inr template \<and>
    task_metrics e d s template = Inr ms \<and>
    make_data_source e d s template sm = Inr src \<and>
    maybe_get_class_id_postprocessor e template = Inr post \<and>
    get_label_strings e template = Inr labels_opt \<and>
    reg' = reg @
      \<lparr>task_name = task_name_or e d s n tn, source = src, preprocessors = [tokenize, append_eos],
       output_features = default_output_features, metric_fns = ms, postprocess_fn = post\<rparr> #
      (case labels_opt of
         None \<Rightarrow> []
       | Some [] \<Rightarrow> []
       | Some labels \<Rightarrow>
           [\<lparr>task_name = task_name_or e d s n tn @ ''_score_eval'', source = src,
             preprocessors = [rank_classification_preprocessor labels, tokenize, append_eos],
             output_features = default_output_features,
             metric_fns = [rank_classification_metric (length labels)],
             postprocess_fn = rank_classification_postprocessor\<rparr>])"
  using assms
  by (auto simp: add_task_def Let_def TaskRegistry_add_def
           split: sum.splits option.splits list.splits if_splits)

text \<open>
  Claim C2. When \<open>add_task\<close> returns, it has registered the task \<open>task_name\<close> and,
  if and only if \<open>get_label_strings\<close> returned a non-empty list of label strings, a
  second task \<open>task_name + "_score_eval"\<close> whose metric is \<open>rank_classification\<close> with
  \<open>num_classes\<close> equal to the number of label strings.
\<close>

theorem score_eval_task_iff_labels:
  assumes "add_task e all_templates d s n tn sm registry = Inr registry'"
  shows "\<exists>template labels_opt.
           get_item (get_dataset all_templates d s) n = Inr template \<and>
           get_label_strings e template = Inr labels_opt \<and>
           (if labels_opt \<noteq> None \<and> labels_opt \<noteq> Some []
            then \<exists>primary score.
                   registry' = registry @ [primary, score] \<and>
                   task_name primary = task_name_or e d s n tn \<and>
                   task_name score = task_name_or e d s n tn @ ''_score_eval'' \<and>
                   metric_fns score = [rank_classification_metric (length (the labels_opt))]
            else \<exists>primary.
                   registry' = registry @ [primary] \<and>
                   task_name primary = task_name_or e d s n tn)"
proof -
  from add_task_Inr[OF assms] obtain template ms src post labels_opt where
    t: "get_item (get_dataset all_templates d s) n = Inr template" and
    l: "get_label_strings e template = Inr labels_opt" and
    r: "registry' = registry @
      \<lparr>task_name = task_name_or e d s n tn, source = src, preprocessors = [tokenize, append_eos],
       output_features = default_output_features, metric_fns = ms, postprocess_fn = post\<rparr> #
      (case labels_opt of
         None \<Rightarrow> []
       | Some [] \<Rightarrow> []
       | Some labels \<Rightarrow>
           [\<lparr>task_name = task_name_or e d s n tn @ ''_score_eval'', source = src,
             preprocessors = [rank_classification_preprocessor labels, tokenize, append_eos],
             output_features = default_output_features,
             metric_fns = [rank_classification_metric (length labels)],
             postprocess_fn = rank_classification_postprocessor\<rparr>])"
    by blast
  show ?thesis
  proof (intro exI conjI)
    show "get_item (get_dataset all_templates d s) n = Inr template" by (rule t)
    show "get_label_strings e template = Inr labels_opt" by (rule l)
    show "if labels_opt \<noteq> None \<and> labels_opt \<noteq> Some []
            then \<exists>primary score.
                   registry' = registry @ [primary, score] \<and>
                   task_name primary = task_name_or e d s n tn \<and>
                   task_name score = task_name_or e d s n tn @ ''_score_eval'' \<and>
                   metric_fns score = [rank_classification_metric (length (the labels_opt))]
            else \<exists>primary.
                   registry' = registry @ [primary] \<and>
                   task_name primary = task_name_or e d s n tn"
      using r by (cases labels_opt; cases "the labels_opt") auto
  qed
qed

lemma add_task_rte:
  "\<exists>r. add_task example_env example_collection ''super_glue'' (Some ''rte'') ''does_it_follow''
         None None [] = Inr r"
  by (simp add: add_task_def example_env_def example_collection_def get_item_def get_dataset_def
     template_labels_def task_metrics_def make_data_source_def maybe_get_class_id_postprocessor_def
     get_label_strings_def str_split_def strip_def isspace_def task_name_or_def example_task_name_def
     TaskRegistry_add_def names_def Let_def)

lemma get_item_rte:
  "get_item (get_dataset example_collection ''super_glue'' (Some ''rte'')) ''does_it_follow'' =
     Inr template_labels"
  by (simp add: get_item_def get_dataset_def example_collection_def template_labels_def)

lemma get_label_strings_example:
  "get_label_strings example_env template_labels = Inr (Some [''yes'', ''no''])"
  by (simp add: get_label_strings_def example_env_def template_labels_def str_split_def
      strip_def isspace_def)

theorem score_eval_task_iff_labels_witness:
  "\<exists>primary score.
     add_task example_env example_collection ''super_glue'' (Some ''rte'') ''does_it_follow''
       None None [] = Inr [primary, score] \<and>
     get_label_strings example_env template_labels = Inr (Some [''yes'', ''no'']) \<and>
     task_name primary = ''super_glue_rte_does_it_follow'' \<and>
     task_name score = ''super_glue_rte_does_it_follow_score_eval'' \<and>
     metric_fns score = [rank_classification_metric 2]"
proof -
  from add_task_rte obtain r where
    r: "add_task example_env example_collection ''super_glue'' (Some ''rte'') ''does_it_follow''
          None None [] = Inr r"
    by blast
  have n: "task_name_or example_env ''super_glue'' (Some ''rte'') ''does_it_follow'' None =
      ''super_glue_rte_does_it_follow''"
    by (simp add: task_name_or_def example_env_def example_task_name_def)
  from score_eval_task_iff_labels[OF r] get_item_rte get_label_strings_example n
  show ?thesis using r by auto
qed

subsection \<open>Unknown metric names\<close>

lemma map_result_lookup_metric_unknown:
  "m \<in> set ms \<Longrightarrow> GET_METRICS m = None \<Longrightarrow> map_result lookup_metric ms = Inl KeyError"
  by (induction ms) (auto simp: lookup_metric_def split: option.splits sum.splits)

text \<open>
  Claim C6. For a dataset that is neither \<open>glue\<close> nor \<open>super_glue\<close>, a template whose
  metric names include one that is not a key of \<open>GET_METRICS\<close> makes \<open>add_task\<close> raise
  \<open>KeyError\<close> with the registry unchanged; the loop body that called it does not catch
  the exception and leaves the script state unchanged.
\<close>

theorem unknown_metric_raises:
  assumes "d \<noteq> ''glue''" and "d \<noteq> ''super_glue''"
    and "get_item (get_dataset all_templates d s) n = Inr template"
    and "\<exists>m \<in> set (metrics template). m \<notin> dom GET_METRICS"
  shows "add_task e all_templates d s n tn sm registry = Inl (KeyError, registry) \<and>
         register_template e all_templates train_pairs eval_pairs d s n st = Inl (KeyError, st)"
proof -
  have "map_result lookup_metric (metrics template) = Inl KeyError"
    using assms(4) map_result_lookup_metric_unknown by (auto simp: dom_def)
  then have "task_metrics e d s template = Inl KeyError"
    using assms(1,2) by (simp add: task_metrics_def)
  then have a: "add_task e all_templates d s n tn sm registry = Inl (KeyError, registry)" for tn sm registry
    using assms(3) by (simp add: add_task_def Let_def)
  then show ?thesis by (simp add: register_template_def)
qed

theorem unknown_metric_raises_witness:
  "''xsum'' \<noteq> ''glue'' \<and> ''xsum'' \<noteq> ''super_glue'' \<and>
   get_item (get_dataset broken_collection ''xsum'' None) ''ranking'' = Inr template_unknown_metric \<and>
   ''Mean Reciprocal Rank'' \<in> set (metrics template_unknown_metric) \<and>
   ''Mean Reciprocal Rank'' \<notin> dom GET_METRICS \<and>
   add_task example_env broken_collection ''xsum'' None ''ranking'' None None [] =
     Inl (KeyError, []) \<and>
   register_template example_env broken_collection [] [] ''xsum'' None ''ranking''
     empty_script_state = Inl (KeyError, empty_script_state)"
proof -
  have i: "get_item (get_dataset broken_collection ''xsum'' None) ''ranking'' =
      Inr template_unknown_metric"
    by (simp add: get_item_def get_dataset_def broken_collection_def template_unknown_metric_def
        template_no_separator_def)
  have m: "''Mean Reciprocal Rank'' \<in> set (metrics template_unknown_metric)"
    by (simp add: template_unknown_metric_def)
  have k: "''Mean Reciprocal Rank'' \<notin> dom GET_METRICS"
    by (simp add: GET_METRICS_def dom_def)
  have x: "''xsum'' \<noteq> ''glue''" "''xsum'' \<noteq> ''super_glue''" by simp_all
  from m k have "\<exists>m \<in> set (metrics template_unknown_metric). m \<notin> dom GET_METRICS" by blast
  from unknown_metric_raises[OF x i this] i m k x show ?thesis by blast
qed

subsection \<open>Reading the manifest\<close>

lemma process_row_Inr_appends:
  assumes "process_row row st = Inr st'"
  shows "do_train st' = do_train st @
           (if \<not> skipped row \<and> flag_set ''do_train'' row then [row_pair row] else [])"
    and "do_eval st' = do_eval st @
           (if \<not> skipped row \<and> flag_set ''do_eval'' row then [row_pair row] else [])"
    and "train_sets st' = train_sets st @
           (if \<not> skipped row \<and> flag_set ''do_train'' row then [with_subset_none row] else [])"
    and "eval_sets st' = eval_sets st @
           (if \<not> skipped row \<and> flag_set ''do_eval'' row then [with_subset_none row] else [])"
  using assms
  by (auto simp: process_row_def truthy_def skipped_def flag_set_def row_pair_def cell_def
      with_subset_none_def Let_def split: option.splits if_splits)

lemma read_manifest_Inr:
  assumes "read_manifest reader = Inr m"
  shows "do_train m = map row_pair (filter (\<lambda>r. \<not> skipped r \<and> flag_set ''do_train'' r) reader)"
    and "do_eval m = map row_pair (filter (\<lambda>r. \<not> skipped r \<and> flag_set ''do_eval'' r) reader)"
    and "train_sets m =
           map with_subset_none (filter (\<lambda>r. \<not> skipped r \<and> flag_set ''do_train'' r) reader)"
    and "eval_sets m =
           map with_subset_none (filter (\<lambda>r. \<not> skipped r \<and> flag_set ''do_eval'' r) reader)"
proof -
  note l = assms[unfolded read_manifest_def]
  have "do_train m = do_train empty_manifest_state @
      concat (map (\<lambda>r. if \<not> skipped r \<and> flag_set ''do_train'' r then [row_pair r] else []) reader)"
    by (rule for_each_appends[OF l]) (rule process_row_Inr_appends)
  then show "do_train m =
      map row_pair (filter (\<lambda>r. \<not> skipped r \<and> flag_set ''do_train'' r) reader)"
    by (simp add: concat_map_if empty_manifest_state_def)
  have "do_eval m = do_eval empty_manifest_state @
      concat (map (\<lambda>r. if \<not> skipped r \<and> flag_set ''do_eval'' r then [row_pair r] else []) reader)"
    by (rule for_each_appends[OF l]) (rule process_row_Inr_appends)
  then show "do_eval m =
      map row_pair (filter (\<lambda>r. \<not> skipped r \<and> flag_set ''do_eval'' r) reader)"
    by (simp add: concat_map_if empty_manifest_state_def)
  have "train_sets m = train_sets empty_manifest_state @
      concat (map (\<lambda>r. if \<not> skipped r \<and> flag_set ''do_train'' r then [with_subset_none r] else [])
                reader)"
    by (rule for_each_appends[OF l]) (rule process_row_Inr_appends)
  then show "train_sets m =
      map with_subset_none (filter (\<lambda>r. \<not> skipped r \<and> flag_set ''do_train'' r) reader)"
    by (simp add: concat_map_if empty_manifest_state_def)
  have "eval_sets m = eval_sets empty_manifest_state @
      concat (map (\<lambda>r. if \<not> skipped r \<and> flag_set ''do_eval'' r then [with_subset_none r] else [])
                reader)"
    by (rule for_each_appends[OF l]) (rule process_row_Inr_appends)
  then show "eval_sets m =
      map with_subset_none (filter (\<lambda>r. \<not> skipped r \<and> flag_set ''do_eval'' r) reader)"
    by (simp add: concat_map_if empty_manifest_state_def)
qed

text \<open>Rows that agree on the five columns are read alike, from states that agree on the lists.\<close>

lemma process_row_agree:
  assumes "map r manifest_columns = map r' manifest_columns"
    and "do_train st = do_train st'" and "do_eval st = do_eval st'"
    and "length (train_sets st) = length (train_sets st')"
    and "length (eval_sets st) = length (eval_sets st')"
  shows "raised (process_row r st) = raised (process_row r' st') \<and>
     do_train (final_state (process_row r st)) = do_train (final_state (process_row r' st')) \<and>
     do_eval (final_state (process_row r st)) = do_eval (final_state (process_row r' st')) \<and>
     length (train_sets (final_state (process_row r st))) =
       length (train_sets (final_state (process_row r' st'))) \<and>
     length (eval_sets (final_state (process_row r st))) =
       length (eval_sets (final_state (process_row r' st')))"
proof -
  from assms(1) have c: "r' ''skip'' = r ''skip''" "r' ''subset'' = r ''subset''"
    "r' ''do_train'' = r ''do_train''" "r' ''do_eval'' = r ''do_eval''"
    "r' ''HF_name'' = r ''HF_name''"
    by (simp_all add: manifest_columns_def)
  show ?thesis
    using assms(2-5)
    by (simp add: process_row_def raised_def final_state_def Let_def c split: option.splits)
qed

lemma for_each_process_row_agree:
  assumes "list_all2 (\<lambda>r r'. map r manifest_columns = map r' manifest_columns) rs rs'"
  shows "\<forall>st st'.
     do_train st = do_train st' \<and> do_eval st = do_eval st' \<and>
     length (train_sets st) = length (train_sets st') \<and>
     length (eval_sets st) = length (eval_sets st') \<longrightarrow>
     raised (for_each process_row rs st) = raised (for_each process_row rs' st') \<and>
     do_train (final_state (for_each process_row rs st)) =
       do_train (final_state (for_each process_row rs' st')) \<and>
     do_eval (final_state (for_each process_row rs st)) =
       do_eval (final_state (for_each process_row rs' st')) \<and>
     length (train_sets (final_state (for_each process_row rs st))) =
       length (train_sets (final_state (for_each process_row rs' st'))) \<and>
     length (eval_sets (final_state (for_each process_row rs st))) =
       length (eval_sets (final_state (for_each process_row rs' st')))"
  using assms
proof (induction rule: list_all2_induct)
  case Nil
  then show ?case by (simp add: raised_def final_state_def)
next
  case (Cons r rs r' rs')
  show ?case
  proof (intro allI impI)
    fix st st' :: manifest_state
    assume a: "do_train st = do_train st' \<and> do_eval st = do_eval st' \<and>
     length (train_sets st) = length (train_sets st') \<and>
     length (eval_sets st) = length (eval_sets st')"
    then have p: "raised (process_row r st) = raised (process_row r' st') \<and>
     do_train (final_state (process_row r st)) = do_train (final_state (process_row r' st')) \<and>
     do_eval (final_state (process_row r st)) = do_eval (final_state (process_row r' st')) \<and>
     length (train_sets (final_state (process_row r st))) =
       length (train_sets (final_state (process_row r' st'))) \<and>
     length (eval_sets (final_state (process_row r st))) =
       length (eval_sets (final_state (process_row r' st')))"
      using process_row_agree[OF Cons.hyps(1)] by blast
    show "raised (for_each process_row (r # rs) st) = raised (for_each process_row (r' # rs') st') \<and>
     do_train (final_state (for_each process_row (r # rs) st)) =
       do_train (final_state (for_each process_row (r' # rs') st')) \<and>
     do_eval (final_state (for_each process_row (r # rs) st)) =
       do_eval (final_state (for_each process_row (r' # rs') st')) \<and>
     length (train_sets (final_state (for_each process_row (r # rs) st))) =
       length (train_sets (final_state (for_each process_row (r' # rs') st'))) \<and>
     length (eval_sets (final_state (for_each process_row (r # rs) st))) =
       length (eval_sets (final_state (for_each process_row (r' # rs') st')))"
    proof (cases "process_row r st")
      case (Inl x)
      then obtain x' where "process_row r' st' = Inl x'"
        using p by (cases "process_row r' st'") (auto simp: raised_def split: prod.splits)
      with Inl p show ?thesis by simp
    next
      case (Inr s1)
      then obtain s1' where i: "process_row r' st' = Inr s1'"
        using p by (cases "process_row r' st'") (auto simp: raised_def)
      with Inr p have "do_train s1 = do_train s1' \<and> do_eval s1 = do_eval s1' \<and>
         length (train_sets s1) = length (train_sets s1') \<and>
         length (eval_sets s1) = length (eval_sets s1')"
        by (simp add: final_state_def)
      with Cons.IH Inr i show ?thesis by simp
    qed
  qed
qed

text \<open>
  Claim C5, amended. Reading a row looks at the columns \<open>skip\<close>, \<open>subset\<close>,
  \<open>do_train\<close>, \<open>do_eval\<close> and \<open>HF_name\<close> only. A row with a non-empty \<open>skip\<close> is ignored.
  Otherwise an empty \<open>subset\<close> becomes \<open>None\<close>, the pair (\<open>HF_name\<close>, \<open>subset\<close>) is
  appended to \<open>do_train\<close> exactly when \<open>do_train\<close> is \<open>TRUE\<close> and to \<open>do_eval\<close> exactly
  when \<open>do_eval\<close> is \<open>TRUE\<close>, and the row itself, with all its columns, is appended to
  \<open>train_sets\<close> and to \<open>eval_sets\<close> under the same conditions. So after the whole
  manifest the four lists hold the pairs and the rows of the rows that are not skipped
  and have the flag, in the order of the manifest. The other columns of a row have no
  effect on the outcome, on \<open>do_train\<close> and \<open>do_eval\<close>, nor on how many rows \<open>train_sets\<close>
  and \<open>eval_sets\<close> hold; they are part of the rows that these two lists hold.
\<close>

theorem manifest_row_columns:
  "(row ''skip'' = Some sk \<and> truthy sk \<longrightarrow> process_row row st = Inr st) \<and>
   (row ''skip'' = Some sk \<and> \<not> truthy sk \<and> row ''subset'' = Some sub \<and>
    row ''do_train'' = Some tr \<and> row ''do_eval'' = Some ev \<and> row ''HF_name'' = Some hf \<longrightarrow>
      (\<exists>st'. process_row row st = Inr st' \<and>
         do_train st' = do_train st @
           (if tr = Some ''TRUE'' then [(hf, if sub = Some [] then None else sub)] else []) \<and>
         do_eval st' = do_eval st @
           (if ev = Some ''TRUE'' then [(hf, if sub = Some [] then None else sub)] else []) \<and>
         train_sets st' = train_sets st @
           (if tr = Some ''TRUE''
            then [if sub = Some [] then row(''subset'' \<mapsto> None) else row] else []) \<and>
         eval_sets st' = eval_sets st @
           (if ev = Some ''TRUE''
            then [if sub = Some [] then row(''subset'' \<mapsto> None) else row] else []))) \<and>
   (read_manifest reader = Inr m \<longrightarrow>
      do_train m = map row_pair (filter (\<lambda>r. \<not> skipped r \<and> flag_set ''do_train'' r) reader) \<and>
      do_eval m = map row_pair (filter (\<lambda>r. \<not> skipped r \<and> flag_set ''do_eval'' r) reader) \<and>
      train_sets m =
        map with_subset_none (filter (\<lambda>r. \<not> skipped r \<and> flag_set ''do_train'' r) reader) \<and>
      eval_sets m =
        map with_subset_none (filter (\<lambda>r. \<not> skipped r \<and> flag_set ''do_eval'' r) reader)) \<and>
   (list_all2 (\<lambda>r r'. map r manifest_columns = map r' manifest_columns) reader reader' \<longrightarrow>
      raised (read_manifest reader) = raised (read_manifest reader') \<and>
      do_train (final_state (read_manifest reader)) =
        do_train (final_state (read_manifest reader')) \<and>
      do_eval (final_state (read_manifest reader)) =
        do_eval (final_state (read_manifest reader')) \<and>
      length (train_sets (final_state (read_manifest reader))) =
        length (train_sets (final_state (read_manifest reader'))) \<and>
      length (eval_sets (final_state (read_manifest reader))) =
        length (eval_sets (final_state (read_manifest reader'))))"
proof (intro conjI impI)
  assume "row ''skip'' = Some sk \<and> truthy sk"
  then show "process_row row st = Inr st" by (simp add: process_row_def)
next
  assume "row ''skip'' = Some sk \<and> \<not> truthy sk \<and> row ''subset'' = Some sub \<and>
    row ''do_train'' = Some tr \<and> row ''do_eval'' = Some ev \<and> row ''HF_name'' = Some hf"
  then show "\<exists>st'. process_row row st = Inr st' \<and>
         do_train st' = do_train st @
           (if tr = Some ''TRUE'' then [(hf, if sub = Some [] then None else sub)] else []) \<and>
         do_eval st' = do_eval st @
           (if ev = Some ''TRUE'' then [(hf, if sub = Some [] then None else sub)] else []) \<and>
         train_sets st' = train_sets st @
           (if tr = Some ''TRUE''
            then [if sub = Some [] then row(''subset'' \<mapsto> None) else row] else []) \<and>
         eval_sets st' = eval_sets st @
           (if ev = Some ''TRUE''
            then [if sub = Some [] then row(''subset'' \<mapsto> None) else row] else [])"
    by (simp add: process_row_def Let_def)
next
  assume r: "read_manifest reader = Inr m"
  show "do_train m = map row_pair (filter (\<lambda>r. \<not> skipped r \<and> flag_set ''do_train'' r) reader)"
    "do_eval m = map row_pair (filter (\<lambda>r. \<not> skipped r \<and> flag_set ''do_eval'' r) reader)"
    "train_sets m =
        map with_subset_none (filter (\<lambda>r. \<not> skipped r \<and> flag_set ''do_train'' r) reader)"
    "eval_sets m =
        map with_subset_none (filter (\<lambda>r. \<not> skipped r \<and> flag_set ''do_eval'' r) reader)"
    by (rule read_manifest_Inr[OF r])+
next
  assume a: "list_all2 (\<lambda>r r'. map r manifest_columns = map r' manifest_columns) reader reader'"
  note f = for_each_process_row_agree[OF a, rule_format,
      of empty_manifest_state empty_manifest_state, folded read_manifest_def]
  show "raised (read_manifest reader) = raised (read_manifest reader')"
    "do_train (final_state (read_manifest reader)) =
        do_train (final_state (read_manifest reader'))"
    "do_eval (final_state (read_manifest reader)) =
        do_eval (final_state (read_manifest reader'))"
    "length (train_sets (final_state (read_manifest reader))) =
        length (train_sets (final_state (read_manifest reader')))"
    "length (eval_sets (final_state (read_manifest reader))) =
        length (eval_sets (final_state (read_manifest reader')))"
    using f by simp_all
qed

text \<open>
  Claim C10. The classification of a row is by exact match. Any non-empty \<open>skip\<close>
  excludes the row. A row whose \<open>do_train\<close> and \<open>do_eval\<close> are both different from
  \<open>TRUE\<close> is read without an error and changes nothing; a \<open>do_train\<close> other than
  \<open>TRUE\<close> keeps the row out of the train lists, a \<open>do_eval\<close> other than \<open>TRUE\<close> out
  of the eval lists, whatever else happens to the row.
\<close>

theorem manifest_flags_exact_match:
  "(row ''skip'' = Some (Some v) \<and> v \<noteq> [] \<longrightarrow> process_row row st = Inr st) \<and>
   (row ''skip'' = Some sk \<and> \<not> truthy sk \<and> row ''subset'' = Some sub \<and>
    row ''do_train'' = Some tr \<and> row ''do_eval'' = Some ev \<and>
    tr \<noteq> Some ''TRUE'' \<and> ev \<noteq> Some ''TRUE'' \<longrightarrow> process_row row st = Inr st) \<and>
   (row ''do_train'' = Some tr \<and> tr \<noteq> Some ''TRUE'' \<longrightarrow>
      train_sets (final_state (process_row row st)) = train_sets st \<and>
      do_train (final_state (process_row row st)) = do_train st) \<and>
   (row ''do_eval'' = Some ev \<and> ev \<noteq> Some ''TRUE'' \<longrightarrow>
      eval_sets (final_state (process_row row st)) = eval_sets st \<and>
      do_eval (final_state (process_row row st)) = do_eval st)"
  by (auto simp: process_row_def truthy_def final_state_def Let_def split: option.splits)

theorem manifest_row_columns_counterexample:
  "map row_gigaword manifest_columns = map row_gigaword_commented manifest_columns \<and>
   \<not> isl (read_manifest [row_gigaword]) \<and> \<not> isl (read_manifest [row_gigaword_commented]) \<and>
   (train_sets (final_state (read_manifest [row_gigaword])) ! 0) ''comment'' = None \<and>
   (train_sets (final_state (read_manifest [row_gigaword_commented])) ! 0) ''comment'' =
     Some (Some ''summaries of news'') \<and>
   train_sets (final_state (read_manifest [row_gigaword])) \<noteq>
     train_sets (final_state (read_manifest [row_gigaword_commented]))"
proof -
  have a: "map row_gigaword manifest_columns = map row_gigaword_commented manifest_columns"
    by (simp add: manifest_columns_def row_gigaword_commented_def)
  have r1: "read_manifest [row_gigaword] =
      Inr \<lparr>train_sets = [row_gigaword(''subset'' \<mapsto> None)], eval_sets = [],
           do_train = [(Some ''gigaword'', None)], do_eval = []\<rparr>"
    by (simp add: read_manifest_def process_row_def truthy_def empty_manifest_state_def
        row_gigaword_def Let_def)
  have r2: "read_manifest [row_gigaword_commented] =
      Inr \<lparr>train_sets = [row_gigaword_commented(''subset'' \<mapsto> None)], eval_sets = [],
           do_train = [(Some ''gigaword'', None)], do_eval = []\<rparr>"
    by (simp add: read_manifest_def process_row_def truthy_def empty_manifest_state_def
        row_gigaword_def row_gigaword_commented_def Let_def)
  have t1: "train_sets (final_state (read_manifest [row_gigaword])) =
      [row_gigaword(''subset'' \<mapsto> None)]"
    unfolding r1 by (simp add: final_state_def)
  have t2: "train_sets (final_state (read_manifest [row_gigaword_commented])) =
      [row_gigaword_commented(''subset'' \<mapsto> None)]"
    unfolding r2 by (simp add: final_state_def)
  have c1: "(train_sets (final_state (read_manifest [row_gigaword])) ! 0) ''comment'' = None"
    unfolding t1 by (simp add: row_gigaword_def)
  have c2: "(train_sets (final_state (read_manifest [row_gigaword_commented])) ! 0) ''comment'' =
      Some (Some ''summaries of news'')"
    unfolding t2 by (simp add: row_gigaword_commented_def)
  from c1 c2 have d: "train_sets (final_state (read_manifest [row_gigaword])) \<noteq>
     train_sets (final_state (read_manifest [row_gigaword_commented]))"
    by auto
  have i: "\<not> isl (read_manifest [row_gigaword])"
    "\<not> isl (read_manifest [row_gigaword_commented])"
    unfolding r1 r2 by simp_all
  from a i c1 c2 d show ?thesis by blast
qed

theorem manifest_row_columns_witness:
  "list_all2 (\<lambda>r r'. map r manifest_columns = map r' manifest_columns)
     [row_gigaword, row_skipped, row_rte] [row_gigaword_commented, row_skipped, row_rte] \<and>
   row_gigaword \<noteq> row_gigaword_commented \<and>
   \<not> skipped row_gigaword \<and> flag_set ''do_train'' row_gigaword \<and>
   \<not> flag_set ''do_eval'' row_gigaword \<and> skipped row_skipped \<and>
   row_skipped ''skip'' = Some (Some ''FALSE'') \<and> truthy (Some ''FALSE'') \<and>
   process_row row_skipped empty_manifest_state = Inr empty_manifest_state \<and>
   raised (read_manifest [row_gigaword, row_skipped, row_rte]) = None \<and>
   raised (read_manifest [row_gigaword_commented, row_skipped, row_rte]) = None \<and>
   do_train (final_state (read_manifest [row_gigaword, row_skipped, row_rte])) =
     [(Some ''gigaword'', None), (Some ''super_glue'', Some ''rte'')] \<and>
   do_train (final_state (read_manifest [row_gigaword_commented, row_skipped, row_rte])) =
     [(Some ''gigaword'', None), (Some ''super_glue'', Some ''rte'')] \<and>
   do_eval (final_state (read_manifest [row_gigaword_commented, row_skipped, row_rte])) =
     [(Some ''super_glue'', Some ''rte'')] \<and>
   train_sets (final_state (read_manifest [row_gigaword, row_skipped, row_rte])) =
     [row_gigaword(''subset'' \<mapsto> None), row_rte]"
proof -
  have a: "list_all2 (\<lambda>r r'. map r manifest_columns = map r' manifest_columns)
     [row_gigaword, row_skipped, row_rte] [row_gigaword_commented, row_skipped, row_rte]"
    by (simp add: manifest_columns_def row_gigaword_commented_def)
  have d: "row_gigaword \<noteq> row_gigaword_commented"
  proof
    assume "row_gigaword = row_gigaword_commented"
    then have "row_gigaword ''comment'' = row_gigaword_commented ''comment''" by simp
    then show False by (simp add: row_gigaword_def row_gigaword_commented_def)
  qed
  have g: "\<not> skipped row_gigaword" "flag_set ''do_train'' row_gigaword"
    "\<not> flag_set ''do_eval'' row_gigaword" "row_pair row_gigaword = (Some ''gigaword'', None)"
    "with_subset_none row_gigaword = row_gigaword(''subset'' \<mapsto> None)"
    by (simp_all add: skipped_def flag_set_def row_pair_def cell_def with_subset_none_def
        row_gigaword_def)
  have k: "skipped row_skipped" "row_skipped ''skip'' = Some (Some ''FALSE'')"
    "truthy (Some ''FALSE'')"
    by (simp_all add: skipped_def row_skipped_def truthy_def)
  have t: "\<not> skipped row_rte" "flag_set ''do_train'' row_rte" "flag_set ''do_eval'' row_rte"
    "row_pair row_rte = (Some ''super_glue'', Some ''rte'')" "with_subset_none row_rte = row_rte"
    by (simp_all add: skipped_def flag_set_def row_pair_def cell_def with_subset_none_def
        row_rte_def)
  have r: "\<exists>m. read_manifest [row_gigaword, row_skipped, row_rte] = Inr m"
    by (simp add: read_manifest_def process_row_def truthy_def empty_manifest_state_def
        row_gigaword_def row_skipped_def row_rte_def Let_def)
  then obtain m where m: "read_manifest [row_gigaword, row_skipped, row_rte] = Inr m" by blast
  note u = manifest_row_columns[of row_skipped "Some ''FALSE''" empty_manifest_state _ _ _ _
      "[row_gigaword, row_skipped, row_rte]" m
      "[row_gigaword_commented, row_skipped, row_rte]"]
  from u k have s: "process_row row_skipped empty_manifest_state = Inr empty_manifest_state"
    by blast
  from u m have l: "do_train m = [(Some ''gigaword'', None), (Some ''super_glue'', Some ''rte'')]"
    "train_sets m = [row_gigaword(''subset'' \<mapsto> None), row_rte]"
    "do_eval m = [(Some ''super_glue'', Some ''rte'')]"
    using g k t by simp_all
  from u a have e: "raised (read_manifest [row_gigaword, row_skipped, row_rte]) =
      raised (read_manifest [row_gigaword_commented, row_skipped, row_rte])"
    "do_train (final_state (read_manifest [row_gigaword, row_skipped, row_rte])) =
      do_train (final_state (read_manifest [row_gigaword_commented, row_skipped, row_rte]))"
    "do_eval (final_state (read_manifest [row_gigaword, row_skipped, row_rte])) =
      do_eval (final_state (read_manifest [row_gigaword_commented, row_skipped, row_rte]))"
    by blast+
  have f: "raised (read_manifest [row_gigaword, row_skipped, row_rte]) = None"
    "final_state (read_manifest [row_gigaword, row_skipped, row_rte]) = m"
    using m by (simp_all add: raised_def final_state_def)
  from a d g(1-3) k s l e f show ?thesis by simp
qed

theorem manifest_flags_exact_match_witness:
  "row_skipped ''skip'' = Some (Some ''FALSE'') \<and> ''FALSE'' \<noteq> [] \<and>
   process_row row_skipped empty_manifest_state = Inr empty_manifest_state \<and>
   row_lowercase ''do_train'' = Some (Some ''True'') \<and> Some ''True'' \<noteq> Some ''TRUE'' \<and>
   row_lowercase ''do_eval'' = Some (Some ''true'') \<and> Some ''true'' \<noteq> Some ''TRUE'' \<and>
   process_row row_lowercase empty_manifest_state = Inr empty_manifest_state"
proof -
  have k: "row_skipped ''skip'' = Some (Some ''FALSE'') \<and> ''FALSE'' \<noteq> []"
    by (simp add: row_skipped_def)
  have l: "row_lowercase ''skip'' = Some (Some []) \<and> \<not> truthy (Some []) \<and>
      row_lowercase ''subset'' = Some (Some []) \<and>
      row_lowercase ''do_train'' = Some (Some ''True'') \<and>
      row_lowercase ''do_eval'' = Some (Some ''true'') \<and>
      Some ''True'' \<noteq> Some ''TRUE'' \<and> Some ''true'' \<noteq> Some ''TRUE''"
    by (simp add: row_lowercase_def truthy_def)
  from manifest_flags_exact_match[of row_skipped "''FALSE''" empty_manifest_state] k
  have 1: "process_row row_skipped empty_manifest_state = Inr empty_manifest_state" by blast
  from manifest_flags_exact_match[of row_lowercase _ empty_manifest_state "Some []" "Some []"
      "Some ''True''" "Some ''true''"] l
  have 2: "process_row row_lowercase empty_manifest_state = Inr empty_manifest_state" by blast
  from k l 1 2 show ?thesis by simp
qed

subsection \<open>The registration loops\<close>

text \<open>What a successful body of the template loop does to the state.\<close>

lemma register_template_Inr:
  assumes "register_template e tc tp ep d s n st = Inr st'"
  shows "\<exists>reg t. add_task e tc d s n None None (TaskRegistry st) = Inr reg \<and>
     get_item (get_dataset tc d s) n = Inr t \<and>
     TaskRegistry st' = reg \<and>
     train_mixture st' = train_mixture st @
        (if (Some d, s) \<in> set tp then [get_task_name e d s n] else []) \<and>
     eval_mixture st' = eval_mixture st @
        (if (Some d, s) \<in> set ep \<and> original_task t then [get_task_name e d s n] else [])"
proof -
  from assms obtain reg where a: "add_task e tc d s n None None (TaskRegistry st) = Inr reg"
    by (auto simp: register_template_def split: sum.splits prod.splits)
  from add_task_Inr[OF a] obtain t where t: "get_item (get_dataset tc d s) n = Inr t" by blast
  from assms a t show ?thesis
    by (auto simp: register_template_def Let_def split: if_splits)
qed

lemma add_task_names:
  assumes "add_task e tc d s n tn sm reg = Inr reg'"
  shows "set (names reg) \<subseteq> set (names reg')" and "task_name_or e d s n tn \<in> set (names reg')"
  using add_task_Inr[OF assms] by (auto simp: names_def)


lemma register_anli_template_Inr:
  assumes "register_anli_template e tc r n st = Inr st'"
  shows "add_task e tc ''anli'' None n (Some (get_task_name e ''anli'' None n @ ''_'' @ r))
           (Some [(''train'', ''train_'' @ r), (''validation'', ''dev_'' @ r),
                  (''test'', ''test_'' @ r)]) (TaskRegistry st) = Inr (TaskRegistry st') \<and>
     train_mixture st' = train_mixture st \<and>
     eval_mixture st' = eval_mixture st @ [get_task_name e ''anli'' None n @ ''_'' @ r]"
  using assms
  by (auto simp: register_anli_template_def Let_def split: sum.splits prod.splits)

lemma register_dataset_eq:
  "register_dataset e tc tp ep (d, x) s =
     (if (Some d, x) \<in> set tp \<or> (Some d, x) \<in> set ep
      then for_each (register_template e tc tp ep d x)
             (all_template_names (get_dataset tc d x)) s
      else Inr s)"
  by (simp add: register_dataset_def)

text \<open>A property of the registry that \<open>add_task\<close> preserves holds after all the loops.\<close>

lemma register_tasks_registry_invariant:
  assumes run: "register_tasks e tc m = Inr st"
    and init: "P []"
    and step: "\<And>d s n tn sm reg reg'. P reg \<Longrightarrow> add_task e tc d s n tn sm reg = Inr reg' \<Longrightarrow> P reg'"
  shows "P (TaskRegistry st)"
proof -
  let ?Q = "\<lambda>s. P (TaskRegistry s)"
  have tmpl: "?Q s'" if "?Q s" "register_template e tc tp ep d x n s = Inr s'"
    for tp ep d x n s s'
    using register_template_Inr[OF that(2)] step[OF that(1)] by auto
  have dset: "?Q s'" if q: "?Q s" and r: "register_dataset e tc tp ep k s = Inr s'" for tp ep k s s'
  proof (cases k)
    case (Pair d x)
    show ?thesis
    proof (cases "(Some d, x) \<in> set tp \<or> (Some d, x) \<in> set ep")
      case False
      then show ?thesis using q r Pair by (simp add: register_dataset_eq)
    next
      case True
      then have "for_each (register_template e tc tp ep d x)
          (all_template_names (get_dataset tc d x)) s = Inr s'"
        using r Pair by (simp add: register_dataset_eq)
      then show ?thesis
        by (rule for_each_invariant[where P = ?Q]) (use q tmpl in auto)
    qed
  qed
  have atmpl: "?Q s'" if "?Q s" "register_anli_template e tc r n s = Inr s'" for r n s s'
    using register_anli_template_Inr[OF that(2)] step[OF that(1)] by auto
  have around: "?Q s'" if q: "?Q s" and r: "register_anli_round e tc rd s = Inr s'" for rd s s'
    using r unfolding register_anli_round_def
    by (rule for_each_invariant[where P = ?Q]) (use q atmpl in auto)
  from run obtain s1 where
    l1: "for_each (register_dataset e tc (do_train m) (do_eval m))
           (filter (\<lambda>k. k \<noteq> (''anli'', None)) (keys tc)) empty_script_state = Inr s1"
    and l2: "for_each (register_anli_round e tc) anli_rounds s1 = Inr st"
    by (auto simp: register_tasks_def split: sum.splits)
  have "?Q empty_script_state" using init by (simp add: empty_script_state_def)
  with l1 have "?Q s1"
    by (rule for_each_invariant[where P = ?Q]) (use dset in auto)
  with l2 show ?thesis
    by (rule for_each_invariant[where P = ?Q]) (use around in auto)
qed

lemma anli_rounds_eval_mixture:
  assumes "for_each (register_anli_round e tc) rs st = Inr st'"
  shows "eval_mixture st' = eval_mixture st @
     concat (map (\<lambda>r. map (\<lambda>n. get_task_name e ''anli'' None n @ ''_'' @ r)
                         (all_template_names (get_dataset tc ''anli'' None))) rs)"
proof (rule for_each_appends[OF assms])
  fix r s s'
  assume "register_anli_round e tc r s = Inr s'"
  then have l: "for_each (register_anli_template e tc r)
      (all_template_names (get_dataset tc ''anli'' None)) s = Inr s'"
    by (simp add: register_anli_round_def)
  have "eval_mixture s' = eval_mixture s @
      concat (map (\<lambda>n. [get_task_name e ''anli'' None n @ ''_'' @ r])
              (all_template_names (get_dataset tc ''anli'' None)))"
    by (rule for_each_appends[OF l]) (use register_anli_template_Inr in blast)
  also have "concat (map (\<lambda>n. [get_task_name e ''anli'' None n @ ''_'' @ r])
              (all_template_names (get_dataset tc ''anli'' None))) =
      map (\<lambda>n. get_task_name e ''anli'' None n @ ''_'' @ r)
              (all_template_names (get_dataset tc ''anli'' None))"
    by (induction "all_template_names (get_dataset tc ''anli'' None)") simp_all
  finally show "eval_mixture s' = eval_mixture s @
      map (\<lambda>n. get_task_name e ''anli'' None n @ ''_'' @ r)
              (all_template_names (get_dataset tc ''anli'' None))" .
qed


text \<open>
  Claim C8. When the script has run, \<open>eval_mixture\<close> is a list of names from the loop
  over the datasets followed by the names of the ANLI loop. A name of the first list
  belongs to a template of a pair, other than \<open>anli\<close>, that is in \<open>do_eval\<close>, and the
  \<open>original_task\<close> flag of that template is true. The second list has the name of every
  ANLI template for every round \<open>r1\<close>, \<open>r2\<close>, \<open>r3\<close>, whatever its flag and whatever
  the manifest says.
\<close>

theorem eval_mixture_contents:
  assumes "script e reader all_templates = Inr (st, ms)"
  shows "\<exists>m main.
     read_manifest reader = Inr m \<and>
     eval_mixture st = main @
       concat (map (\<lambda>r. map (\<lambda>n. get_task_name e ''anli'' None n @ ''_'' @ r)
                           (all_template_names (get_dataset all_templates ''anli'' None)))
                 anli_rounds) \<and>
     (\<forall>x \<in> set main. \<exists>d s n t.
        (d, s) \<in> set (keys all_templates) \<and> (d, s) \<noteq> (''anli'', None) \<and>
        (Some d, s) \<in> set (do_eval m) \<and>
        n \<in> set (all_template_names (get_dataset all_templates d s)) \<and>
        get_item (get_dataset all_templates d s) n = Inr t \<and> original_task t \<and>
        x = get_task_name e d s n)"
proof -
  from assms obtain m where m: "read_manifest reader = Inr m"
    and rt: "register_tasks e all_templates m = Inr st"
    by (auto simp: script_def split: sum.splits prod.splits)
  from rt obtain s1 where
    l1: "for_each (register_dataset e all_templates (do_train m) (do_eval m))
           (filter (\<lambda>k. k \<noteq> (''anli'', None)) (keys all_templates)) empty_script_state = Inr s1"
    and l2: "for_each (register_anli_round e all_templates) anli_rounds s1 = Inr st"
    by (auto simp: register_tasks_def split: sum.splits)
  let ?C = "\<lambda>x. \<exists>d s n t.
        (d, s) \<in> set (keys all_templates) \<and> (d, s) \<noteq> (''anli'', None) \<and>
        (Some d, s) \<in> set (do_eval m) \<and>
        n \<in> set (all_template_names (get_dataset all_templates d s)) \<and>
        get_item (get_dataset all_templates d s) n = Inr t \<and> original_task t \<and>
        x = get_task_name e d s n"
  let ?I = "\<lambda>s. \<forall>x \<in> set (eval_mixture s). ?C x"
  have tmpl: "?I s'"
    if k: "(d, x) \<in> set (keys all_templates)" "(d, x) \<noteq> (''anli'', None)"
      and n: "n \<in> set (all_template_names (get_dataset all_templates d x))"
      and i: "?I s"
      and r: "register_template e all_templates (do_train m) (do_eval m) d x n s = Inr s'"
    for d x n s s'
  proof -
    from register_template_Inr[OF r] obtain t where
      t: "get_item (get_dataset all_templates d x) n = Inr t" and
      ev: "eval_mixture s' = eval_mixture s @
        (if (Some d, x) \<in> set (do_eval m) \<and> original_task t
         then [get_task_name e d x n] else [])"
      by blast
    show ?thesis
    proof
      fix y assume "y \<in> set (eval_mixture s')"
      then consider "y \<in> set (eval_mixture s)"
        | "(Some d, x) \<in> set (do_eval m)" "original_task t" "y = get_task_name e d x n"
        using ev by (auto split: if_splits)
      then show "?C y"
      proof cases
        case 1
        then show ?thesis using i by blast
      next
        case 2
        then show ?thesis using k n t by blast
      qed
    qed
  qed
  have dset: "?I s'"
    if k: "k \<in> set (filter (\<lambda>k. k \<noteq> (''anli'', None)) (keys all_templates))"
      and i: "?I s"
      and r: "register_dataset e all_templates (do_train m) (do_eval m) k s = Inr s'"
    for k s s'
  proof (cases k)
    case (Pair d x)
    with k have kk: "(d, x) \<in> set (keys all_templates)" "(d, x) \<noteq> (''anli'', None)" by auto
    show ?thesis
    proof (cases "(Some d, x) \<in> set (do_train m) \<or> (Some d, x) \<in> set (do_eval m)")
      case False
      then show ?thesis using i r Pair by (simp add: register_dataset_eq)
    next
      case True
      then have l: "for_each (register_template e all_templates (do_train m) (do_eval m) d x)
          (all_template_names (get_dataset all_templates d x)) s = Inr s'"
        using r Pair by (simp add: register_dataset_eq)
      show ?thesis
      proof (rule for_each_invariant[where P = ?I, OF l i])
        fix n s2 s3
        assume "n \<in> set (all_template_names (get_dataset all_templates d x))" "?I s2"
          "register_template e all_templates (do_train m) (do_eval m) d x n s2 = Inr s3"
        then show "?I s3" using tmpl[OF kk] by blast
      qed
    qed
  qed
  have "?I empty_script_state" by (simp add: empty_script_state_def)
  with l1 have main: "?I s1"
    by (rule for_each_invariant[where P = ?I]) (use dset in blast)
  from anli_rounds_eval_mixture[OF l2] m main show ?thesis by blast
qed

lemma process_row_do_train_mono:
  "process_row y s = Inr s' \<Longrightarrow> p \<in> set (do_train s) \<Longrightarrow> p \<in> set (do_train s')"
  by (auto simp: process_row_def Let_def split: option.splits if_splits)

lemma read_manifest_do_train:
  assumes "read_manifest reader = Inr m" and "row \<in> set reader"
    and "row ''skip'' = Some sk" and "\<not> truthy sk"
    and "row ''do_train'' = Some (Some ''TRUE'')" and "row ''HF_name'' = Some hf"
    and "row ''subset'' = Some sub"
  shows "(hf, if sub = Some [] then None else sub) \<in> set (do_train m)"
proof (rule for_each_establish[where Q = "\<lambda>s. (hf, if sub = Some [] then None else sub) \<in> set (do_train s)",
      OF assms(1)[unfolded read_manifest_def] assms(2)])
  fix s s' assume "process_row row s = Inr s'"
  then show "(hf, if sub = Some [] then None else sub) \<in> set (do_train s')"
    using assms(3-7) by (auto simp: process_row_def Let_def split: option.splits if_splits)
next
  fix y s s'
  assume "(hf, if sub = Some [] then None else sub) \<in> set (do_train s)" "process_row y s = Inr s'"
  then show "(hf, if sub = Some [] then None else sub) \<in> set (do_train s')"
    by (rule process_row_do_train_mono[rotated])
qed


text \<open>A name that is registered and in the train mixture stays so.\<close>

lemma register_template_keeps:
  assumes "register_template e tc tp ep d s n st = Inr st'"
    and "x \<in> set (names (TaskRegistry st)) \<and> x \<in> set (train_mixture st)"
  shows "x \<in> set (names (TaskRegistry st')) \<and> x \<in> set (train_mixture st')"
  using register_template_Inr[OF assms(1)] assms(2) add_task_names(1) by fastforce

lemma register_template_adds:
  assumes "register_template e tc tp ep d s n st = Inr st'" and "(Some d, s) \<in> set tp"
  shows "get_task_name e d s n \<in> set (names (TaskRegistry st')) \<and>
         get_task_name e d s n \<in> set (train_mixture st')"
proof -
  from register_template_Inr[OF assms(1)] obtain reg where
    a: "add_task e tc d s n None None (TaskRegistry st) = Inr reg" and
    r: "TaskRegistry st' = reg" and
    t: "train_mixture st' = train_mixture st @
        (if (Some d, s) \<in> set tp then [get_task_name e d s n] else [])"
    by blast
  from add_task_names(2)[OF a] have "get_task_name e d s n \<in> set (names reg)"
    by (simp add: task_name_or_def)
  with r t assms(2) show ?thesis by simp
qed

lemma register_dataset_keeps:
  assumes "register_dataset e tc tp ep k st = Inr st'"
    and "x \<in> set (names (TaskRegistry st)) \<and> x \<in> set (train_mixture st)"
  shows "x \<in> set (names (TaskRegistry st')) \<and> x \<in> set (train_mixture st')"
proof (cases k)
  case (Pair d s)
  show ?thesis
  proof (cases "(Some d, s) \<in> set tp \<or> (Some d, s) \<in> set ep")
    case False
    then show ?thesis using assms Pair by (simp add: register_dataset_eq)
  next
    case True
    then have l: "for_each (register_template e tc tp ep d s)
        (all_template_names (get_dataset tc d s)) st = Inr st'"
      using assms(1) Pair by (simp add: register_dataset_eq)
    show ?thesis
      by (rule for_each_invariant[where
            P = "\<lambda>s. x \<in> set (names (TaskRegistry s)) \<and> x \<in> set (train_mixture s)",
            OF l assms(2)])
        (use register_template_keeps in blast)
  qed
qed

lemma register_dataset_adds:
  assumes "register_dataset e tc tp ep (d, s) st = Inr st'" and "(Some d, s) \<in> set tp"
    and "n \<in> set (all_template_names (get_dataset tc d s))"
  shows "get_task_name e d s n \<in> set (names (TaskRegistry st')) \<and>
         get_task_name e d s n \<in> set (train_mixture st')"
proof -
  have l: "for_each (register_template e tc tp ep d s)
        (all_template_names (get_dataset tc d s)) st = Inr st'"
    using assms(1,2) by (simp add: register_dataset_eq)
  show ?thesis
  proof (rule for_each_establish[where
        Q = "\<lambda>x. get_task_name e d s n \<in> set (names (TaskRegistry x)) \<and>
                 get_task_name e d s n \<in> set (train_mixture x)", OF l assms(3)])
    fix s1 s2 assume "register_template e tc tp ep d s n s1 = Inr s2"
    then show "get_task_name e d s n \<in> set (names (TaskRegistry s2)) \<and>
         get_task_name e d s n \<in> set (train_mixture s2)"
      using assms(2) by (rule register_template_adds)
  next
    fix y s1 s2
    assume "get_task_name e d s n \<in> set (names (TaskRegistry s1)) \<and>
         get_task_name e d s n \<in> set (train_mixture s1)"
      "register_template e tc tp ep d s y s1 = Inr s2"
    then show "get_task_name e d s n \<in> set (names (TaskRegistry s2)) \<and>
         get_task_name e d s n \<in> set (train_mixture s2)"
      using register_template_keeps by blast
  qed
qed

lemma register_anli_round_keeps:
  assumes "register_anli_round e tc r st = Inr st'"
    and "x \<in> set (names (TaskRegistry st)) \<and> x \<in> set (train_mixture st)"
  shows "x \<in> set (names (TaskRegistry st')) \<and> x \<in> set (train_mixture st')"
proof (rule for_each_invariant[where
      P = "\<lambda>s. x \<in> set (names (TaskRegistry s)) \<and> x \<in> set (train_mixture s)",
      OF assms(1)[unfolded register_anli_round_def] assms(2)])
  fix n s s'
  assume "x \<in> set (names (TaskRegistry s)) \<and> x \<in> set (train_mixture s)"
    "register_anli_template e tc r n s = Inr s'"
  then show "x \<in> set (names (TaskRegistry s')) \<and> x \<in> set (train_mixture s')"
    using register_anli_template_Inr[of e tc r n s s'] add_task_names(1) by fastforce
qed

text \<open>
  Claim C3, amended. When the script has run, for every row that is not skipped, has
  \<open>do_train\<close> equal to \<open>TRUE\<close> and whose pair (\<open>HF_name\<close>, \<open>subset\<close>) is a key of the
  template collection other than \<open>anli\<close>, the task named by \<open>get_task_name\<close> is
  registered for every template name of the pair, and the name is in \<open>train_mixture\<close>.
  The pair \<open>anli\<close> is left out: the script removes it from the keys of the collection
  before the loop over the keys (line 173).
\<close>

theorem train_tasks_registered:
  assumes "script e reader all_templates = Inr (st, ms)"
    and "row \<in> set reader" and "row ''skip'' = Some sk" and "\<not> truthy sk"
    and "row ''do_train'' = Some (Some ''TRUE'')"
    and "row ''HF_name'' = Some (Some d)" and "row ''subset'' = Some sub"
    and "s = (if sub = Some [] then None else sub)"
    and "(d, s) \<in> set (keys all_templates)" and "(d, s) \<noteq> (''anli'', None)"
    and "n \<in> set (all_template_names (get_dataset all_templates d s))"
  shows "get_task_name e d s n \<in> set (names (TaskRegistry st)) \<and>
         get_task_name e d s n \<in> set (train_mixture st)"
proof -
  from assms(1) obtain m where m: "read_manifest reader = Inr m"
    and rt: "register_tasks e all_templates m = Inr st"
    by (auto simp: script_def split: sum.splits prod.splits)
  from rt obtain s1 where
    l1: "for_each (register_dataset e all_templates (do_train m) (do_eval m))
           (filter (\<lambda>k. k \<noteq> (''anli'', None)) (keys all_templates)) empty_script_state = Inr s1"
    and l2: "for_each (register_anli_round e all_templates) anli_rounds s1 = Inr st"
    by (auto simp: register_tasks_def split: sum.splits)
  have tp: "(Some d, s) \<in> set (do_train m)"
    using read_manifest_do_train[OF m assms(2-7)] assms(8) by simp
  have k: "(d, s) \<in> set (filter (\<lambda>k. k \<noteq> (''anli'', None)) (keys all_templates))"
    using assms(9,10) by simp
  let ?Q = "\<lambda>x. get_task_name e d s n \<in> set (names (TaskRegistry x)) \<and>
                 get_task_name e d s n \<in> set (train_mixture x)"
  have "?Q s1"
  proof (rule for_each_establish[where Q = ?Q, OF l1 k])
    fix s2 s3
    assume "register_dataset e all_templates (do_train m) (do_eval m) (d, s) s2 = Inr s3"
    then show "?Q s3" using tp assms(11) by (rule register_dataset_adds)
  next
    fix y s2 s3
    assume "?Q s2" "register_dataset e all_templates (do_train m) (do_eval m) y s2 = Inr s3"
    then show "?Q s3" using register_dataset_keeps by blast
  qed
  with l2 show ?thesis
    by (rule for_each_invariant[where P = ?Q]) (use register_anli_round_keeps in blast)
qed

lemma map_result_lookup_metric_Inr:
  "map_result lookup_metric xs = Inr ms \<Longrightarrow> map GET_METRICS xs = map Some ms"
  by (induction xs arbitrary: ms)
    (auto simp: lookup_metric_def split: option.splits sum.splits)

lemma make_data_source_Inr:
  "make_data_source e d s t sm = Inr src \<Longrightarrow>
     dataset_name_of src = d \<and> subset_name_of src = s \<and> template_of src = t"
  by (auto simp: make_data_source_def Let_def split: sum.splits)

lemma task_metrics_as_specified:
  assumes "task_metrics e d s t = Inr ms"
    and "dataset_name_of (source x) = d" "subset_name_of (source x) = s"
    and "template_of (source x) = t" "metric_fns x = ms"
  shows "metrics_as_specified e x"
  using assms map_result_lookup_metric_Inr[of "metrics t" ms]
  by (auto simp: metrics_as_specified_def task_metrics_def split: if_splits)

lemma add_task_group:
  assumes "add_task e tc d s n tn sm reg = Inr reg'"
  shows "\<exists>p rest. reg' = reg @ p # rest \<and> registered_group e (p # rest) \<and>
     task_name p = task_name_or e d s n tn \<and>
     dataset_name_of (source p) = d \<and> subset_name_of (source p) = s \<and>
     get_item (get_dataset tc d s) n = Inr (template_of (source p))"
proof -
  from add_task_Inr[OF assms] obtain template ms src post labels_opt where
    t: "get_item (get_dataset tc d s) n = Inr template" and
    m: "task_metrics e d s template = Inr ms" and
    src: "make_data_source e d s template sm = Inr src" and
    p: "maybe_get_class_id_postprocessor e template = Inr post" and
    l: "get_label_strings e template = Inr labels_opt" and
    r: "reg' = reg @
      \<lparr>task_name = task_name_or e d s n tn, source = src, preprocessors = [tokenize, append_eos],
       output_features = default_output_features, metric_fns = ms, postprocess_fn = post\<rparr> #
      (case labels_opt of
         None \<Rightarrow> []
       | Some [] \<Rightarrow> []
       | Some labels \<Rightarrow>
           [\<lparr>task_name = task_name_or e d s n tn @ ''_score_eval'', source = src,
             preprocessors = [rank_classification_preprocessor labels, tokenize, append_eos],
             output_features = default_output_features,
             metric_fns = [rank_classification_metric (length labels)],
             postprocess_fn = rank_classification_postprocessor\<rparr>])"
    by blast
  note s = make_data_source_Inr[OF src]
  let ?p = "\<lparr>task_name = task_name_or e d s n tn, source = src,
       preprocessors = [tokenize, append_eos],
       output_features = default_output_features, metric_fns = ms, postprocess_fn = post\<rparr>"
  let ?rest = "case labels_opt of
         None \<Rightarrow> []
       | Some [] \<Rightarrow> []
       | Some labels \<Rightarrow>
           [\<lparr>task_name = task_name_or e d s n tn @ ''_score_eval'', source = src,
             preprocessors = [rank_classification_preprocessor labels, tokenize, append_eos],
             output_features = default_output_features,
             metric_fns = [rank_classification_metric (length labels)],
             postprocess_fn = rank_classification_postprocessor\<rparr>]"
  have prim: "primary_as_specified e ?p"
    using p s task_metrics_as_specified[OF m, of ?p]
    by (simp add: primary_as_specified_def)
  have g: "registered_group e (?p # ?rest)"
    using prim l s
    by (cases labels_opt; cases "the labels_opt")
      (auto simp: registered_group_def score_eval_of_def)
  show ?thesis
  proof (intro exI conjI)
    show "reg' = reg @ ?p # ?rest" by (rule r)
    show "registered_group e (?p # ?rest)" by (rule g)
    show "get_item (get_dataset tc d s) n = Inr (template_of (source ?p))" using t s by simp
  qed (use s in simp_all)
qed

text \<open>
  Claim C4, amended. The task that \<open>add_task\<close> registers under \<open>task_name\<close> has the
  dataset, the subset and the template of the call, the metric list that the dataset
  decides (\<open>get_glue_metric\<close> for \<open>glue\<close>; accuracy for \<open>super_glue\<close> with \<open>wsc.fixed\<close> or
  \<open>multirc\<close>, \<open>get_super_glue_metric\<close> for its other subsets; the template's metric names
  looked up in \<open>GET_METRICS\<close> otherwise) and the postprocessor that
  \<open>maybe_get_class_id_postprocessor\<close> returns for the template. The only other task that
  \<open>add_task\<close> may register is the rank-classification task of that task, right after
  it: named with \<open>_score_eval\<close> appended, with the single metric \<open>rank_classification\<close>
  for the number of the label strings, whatever the dataset. When the script has run,
  the registry is made of such groups of one or two tasks and of nothing else.
\<close>

theorem registered_task_metrics:
  "(add_task e all_templates d s n tn sm registry = Inr registry' \<longrightarrow>
      (\<exists>p rest. registry' = registry @ p # rest \<and> registered_group e (p # rest) \<and>
         task_name p = task_name_or e d s n tn \<and>
         dataset_name_of (source p) = d \<and> subset_name_of (source p) = s \<and>
         get_item (get_dataset all_templates d s) n = Inr (template_of (source p)))) \<and>
   (script e reader all_templates = Inr (st, ms) \<longrightarrow>
      (\<exists>groups. TaskRegistry st = concat groups \<and> (\<forall>g \<in> set groups. registered_group e g)))"
proof (intro conjI impI)
  assume "add_task e all_templates d s n tn sm registry = Inr registry'"
  then show "\<exists>p rest. registry' = registry @ p # rest \<and> registered_group e (p # rest) \<and>
         task_name p = task_name_or e d s n tn \<and>
         dataset_name_of (source p) = d \<and> subset_name_of (source p) = s \<and>
         get_item (get_dataset all_templates d s) n = Inr (template_of (source p))"
    by (rule add_task_group)
next
  assume "script e reader all_templates = Inr (st, ms)"
  then obtain m where rt: "register_tasks e all_templates m = Inr st"
    by (auto simp: script_def split: sum.splits prod.splits)
  let ?P = "\<lambda>reg. \<exists>groups. reg = concat groups \<and> (\<forall>g \<in> set groups. registered_group e g)"
  show "?P (TaskRegistry st)"
  proof (rule register_tasks_registry_invariant[where P = ?P, OF rt])
    show "?P []" by (intro exI[of _ "[]"]) simp
  next
    fix d s n tn sm reg reg'
    assume "?P reg" and a: "add_task e all_templates d s n tn sm reg = Inr reg'"
    then obtain groups where g: "reg = concat groups" "\<forall>g \<in> set groups. registered_group e g"
      by blast
    from add_task_group[OF a] obtain p rest where
      "reg' = reg @ p # rest" "registered_group e (p # rest)"
      by blast
    with g have "reg' = concat (groups @ [p # rest]) \<and>
        (\<forall>g \<in> set (groups @ [p # rest]). registered_group e g)"
      by simp
    then show "?P reg'" by blast
  qed
qed

subsection \<open>The claims on the example run\<close>

lemma example_run_first_tasks:
  "take 2 (TaskRegistry (run_state (script example_env example_manifest example_collection))) =
     [example_primary_task, example_score_task]"
  by (simp add: run_state_def example_primary_task_def example_score_task_def
      example_source_def default_output_features_def script_defs example_defs)

lemma example_run_state:
  "\<exists>st. script example_env example_manifest example_collection = Inr (st, mixture_entries st) \<and>
     run_state (script example_env example_manifest example_collection) = st"
  using example_run by (auto simp: run_state_def)

theorem train_tasks_registered_counterexample:
  "row_anli \<in> set example_manifest \<and>
   row_anli ''skip'' = Some (Some []) \<and>
   row_anli ''do_train'' = Some (Some ''TRUE'') \<and>
   row_anli ''HF_name'' = Some (Some ''anli'') \<and>
   row_anli ''subset'' = Some (Some []) \<and>
   (''anli'', None) \<in> set (keys example_collection) \<and>
   all_template_names (get_dataset example_collection ''anli'' None) = [''does_it_follow''] \<and>
   get_task_name example_env ''anli'' None ''does_it_follow'' = ''anli_does_it_follow'' \<and>
   \<not> isl (script example_env example_manifest example_collection) \<and>
   ''anli_does_it_follow'' \<notin>
     set (names (TaskRegistry (run_state (script example_env example_manifest example_collection)))) \<and>
   ''anli_does_it_follow'' \<notin>
     set (train_mixture (run_state (script example_env example_manifest example_collection)))"
proof -
  from example_run obtain st where
    s: "script example_env example_manifest example_collection = Inr (st, mixture_entries st)"
    and n: "names (TaskRegistry st) =
       [''super_glue_rte_does_it_follow'', ''super_glue_rte_does_it_follow_score_eval'',
        ''gigaword_summarize_'',
        ''anli_does_it_follow_r1'', ''anli_does_it_follow_r1_score_eval'',
        ''anli_does_it_follow_r2'', ''anli_does_it_follow_r2_score_eval'',
        ''anli_does_it_follow_r3'', ''anli_does_it_follow_r3_score_eval'']"
    and t: "train_mixture st = [''super_glue_rte_does_it_follow'', ''gigaword_summarize_'']"
    by blast
  have r: "run_state (script example_env example_manifest example_collection) = st"
    using s by (simp add: run_state_def)
  have 1: "row_anli \<in> set example_manifest \<and>
   row_anli ''skip'' = Some (Some []) \<and>
   row_anli ''do_train'' = Some (Some ''TRUE'') \<and>
   row_anli ''HF_name'' = Some (Some ''anli'') \<and>
   row_anli ''subset'' = Some (Some [])"
    by (simp add: example_manifest_def row_anli_def)
  have 2: "(''anli'', None) \<in> set (keys example_collection) \<and>
   all_template_names (get_dataset example_collection ''anli'' None) = [''does_it_follow''] \<and>
   get_task_name example_env ''anli'' None ''does_it_follow'' = ''anli_does_it_follow''"
    by (simp add: keys_def example_collection_def all_template_names_def get_dataset_def
        template_labels_def example_env_def example_task_name_def)
  have a: "''anli_does_it_follow'' \<notin>
     set (names (TaskRegistry (run_state (script example_env example_manifest example_collection))))"
    unfolding r n by simp
  have b: "''anli_does_it_follow'' \<notin>
     set (train_mixture (run_state (script example_env example_manifest example_collection)))"
    unfolding r t by simp
  have c: "\<not> isl (script example_env example_manifest example_collection)"
    using s by simp
  from 1 2 a b c show ?thesis by blast
qed

theorem train_tasks_registered_witness:
  "\<exists>st ms.
     script example_env example_manifest example_collection = Inr (st, ms) \<and>
     row_gigaword \<in> set example_manifest \<and>
     row_gigaword ''skip'' = Some (Some []) \<and> \<not> truthy (Some []) \<and>
     row_gigaword ''do_train'' = Some (Some ''TRUE'') \<and>
     row_gigaword ''HF_name'' = Some (Some ''gigaword'') \<and>
     row_gigaword ''subset'' = Some (Some []) \<and>
     (''gigaword'', None) \<in> set (keys example_collection) \<and>
     (''gigaword'', None) \<noteq> (''anli'', None) \<and>
     ''summarize_'' \<in> set (all_template_names (get_dataset example_collection ''gigaword'' None)) \<and>
     get_task_name example_env ''gigaword'' None ''summarize_'' = ''gigaword_summarize_'' \<and>
     ''gigaword_summarize_'' \<in> set (names (TaskRegistry st)) \<and>
     ''gigaword_summarize_'' \<in> set (train_mixture st)"
proof -
  from example_run obtain st where
    s: "script example_env example_manifest example_collection = Inr (st, mixture_entries st)"
    by blast
  have 1: "row_gigaword \<in> set example_manifest" by (simp add: example_manifest_def)
  have 2: "row_gigaword ''skip'' = Some (Some [])" "\<not> truthy (Some [])"
    "row_gigaword ''do_train'' = Some (Some ''TRUE'')"
    "row_gigaword ''HF_name'' = Some (Some ''gigaword'')"
    "row_gigaword ''subset'' = Some (Some [])"
    by (simp_all add: row_gigaword_def truthy_def)
  have 3: "None = (if Some [] = Some ([] :: string) then None else Some [])" by simp
  have 4: "(''gigaword'', None) \<in> set (keys example_collection)"
    "(''gigaword'', None :: string option) \<noteq> (''anli'', None)"
    "''summarize_'' \<in> set (all_template_names (get_dataset example_collection ''gigaword'' None))"
    by (simp_all add: keys_def example_collection_def all_template_names_def get_dataset_def
        template_summarize_def)
  have 5: "get_task_name example_env ''gigaword'' None ''summarize_'' = ''gigaword_summarize_''"
    by (simp add: example_env_def example_task_name_def)
  from train_tasks_registered[OF s 1 2 3 4]
  have "get_task_name example_env ''gigaword'' None ''summarize_'' \<in> set (names (TaskRegistry st)) \<and>
     get_task_name example_env ''gigaword'' None ''summarize_'' \<in> set (train_mixture st)" .
  with s 1 2 4 5 show ?thesis by auto
qed

theorem registered_task_metrics_counterexample:
  "\<not> isl (script example_env example_manifest example_collection) \<and>
   take 2 (TaskRegistry (run_state (script example_env example_manifest example_collection))) =
     [example_primary_task, example_score_task] \<and>
   dataset_name_of (source example_score_task) = ''super_glue'' \<and>
   subset_name_of (source example_score_task) = Some ''rte'' \<and>
   get_super_glue_metric example_env (Some ''rte'') = Inr [accuracy] \<and>
   metric_fns example_score_task = [rank_classification_metric 2] \<and>
   \<not> metrics_as_specified example_env example_score_task"
proof -
  from example_run obtain st where
    s: "script example_env example_manifest example_collection = Inr (st, mixture_entries st)"
    by blast
  have "dataset_name_of (source example_score_task) = ''super_glue'' \<and>
   subset_name_of (source example_score_task) = Some ''rte'' \<and>
   get_super_glue_metric example_env (Some ''rte'') = Inr [accuracy] \<and>
   metric_fns example_score_task = [rank_classification_metric 2] \<and>
   \<not> metrics_as_specified example_env example_score_task"
    by (simp add: metrics_as_specified_def example_score_task_def example_source_def
        example_env_def)
  with s example_run_first_tasks show ?thesis by simp
qed

lemma add_task_rte_tasks:
  "add_task example_env example_collection ''super_glue'' (Some ''rte'') ''does_it_follow''
     None None [] = Inr [example_primary_task, example_score_task]"
  by (simp add: add_task_def example_env_def example_collection_def get_item_def get_dataset_def
     template_labels_def task_metrics_def make_data_source_def maybe_get_class_id_postprocessor_def
     get_label_strings_def str_split_def strip_def isspace_def task_name_or_def example_task_name_def
     TaskRegistry_add_def names_def Let_def example_primary_task_def example_score_task_def
     example_source_def)

theorem registered_task_metrics_witness:
  "\<exists>st ms groups.
     add_task example_env example_collection ''super_glue'' (Some ''rte'') ''does_it_follow''
       None None [] = Inr [example_primary_task, example_score_task] \<and>
     task_name example_primary_task =
       task_name_or example_env ''super_glue'' (Some ''rte'') ''does_it_follow'' None \<and>
     registered_group example_env [example_primary_task, example_score_task] \<and>
     metrics_as_specified example_env example_primary_task \<and>
     metric_fns example_primary_task = [accuracy] \<and>
     get_super_glue_metric example_env (Some ''rte'') = Inr [accuracy] \<and>
     score_eval_of example_env example_primary_task example_score_task \<and>
     script example_env example_manifest example_collection = Inr (st, ms) \<and>
     TaskRegistry st = concat groups \<and> groups \<noteq> [] \<and>
     take 2 (TaskRegistry st) = [example_primary_task, example_score_task]"
proof -
  from example_run_state obtain st where
    s: "script example_env example_manifest example_collection = Inr (st, mixture_entries st)"
    and r: "run_state (script example_env example_manifest example_collection) = st"
    by blast
  have t: "take 2 (TaskRegistry st) = [example_primary_task, example_score_task]"
    using example_run_first_tasks r by simp
  note th = registered_task_metrics[of example_env example_collection "''super_glue''"
      "Some ''rte''" "''does_it_follow''" None None "[]"
      "[example_primary_task, example_score_task]" example_manifest st "mixture_entries st"]
  from th add_task_rte_tasks have g: "registered_group example_env
      [example_primary_task, example_score_task]"
    "task_name example_primary_task =
       task_name_or example_env ''super_glue'' (Some ''rte'') ''does_it_follow'' None"
    by auto
  then have ps: "primary_as_specified example_env example_primary_task"
    "score_eval_of example_env example_primary_task example_score_task"
    by (simp_all add: registered_group_def)
  then have m: "metrics_as_specified example_env example_primary_task"
    by (simp add: primary_as_specified_def)
  have p: "metric_fns example_primary_task = [accuracy]"
    "get_super_glue_metric example_env (Some ''rte'') = Inr [accuracy]"
    by (simp_all add: example_primary_task_def example_env_def)
  from th s obtain groups where gr: "TaskRegistry st = concat groups"
    "\<forall>g \<in> set groups. registered_group example_env g"
    by blast
  with t have ne: "groups \<noteq> []" by auto
  from add_task_rte_tasks g ps m p s gr(1) ne t show ?thesis by blast
qed

theorem eval_mixture_contents_witness:
  "\<exists>st ms m main d s n t.
     script example_env example_manifest example_collection = Inr (st, ms) \<and>
     read_manifest example_manifest = Inr m \<and>
     eval_mixture st = main @
       [''anli_does_it_follow_r1'', ''anli_does_it_follow_r2'', ''anli_does_it_follow_r3''] \<and>
     main = [''super_glue_rte_does_it_follow''] \<and>
     (d, s) \<in> set (keys example_collection) \<and> (d, s) \<noteq> (''anli'', None) \<and>
     (Some d, s) \<in> set (do_eval m) \<and>
     n \<in> set (all_template_names (get_dataset example_collection d s)) \<and>
     get_item (get_dataset example_collection d s) n = Inr t \<and> original_task t \<and>
     ''super_glue_rte_does_it_follow'' = get_task_name example_env d s n"
proof -
  from example_run obtain st where
    s: "script example_env example_manifest example_collection = Inr (st, mixture_entries st)"
    and e: "eval_mixture st =
       [''super_glue_rte_does_it_follow'', ''anli_does_it_follow_r1'',
        ''anli_does_it_follow_r2'', ''anli_does_it_follow_r3'']"
    by blast
  have a: "concat (map (\<lambda>r. map (\<lambda>n. get_task_name example_env ''anli'' None n @ ''_'' @ r)
                           (all_template_names (get_dataset example_collection ''anli'' None)))
                 anli_rounds) =
       [''anli_does_it_follow_r1'', ''anli_does_it_follow_r2'', ''anli_does_it_follow_r3'']"
    by (simp add: anli_rounds_def all_template_names_def get_dataset_def example_collection_def
        template_labels_def example_env_def example_task_name_def)
  from eval_mixture_contents[OF s] obtain m main where
    m: "read_manifest example_manifest = Inr m" and
    em: "eval_mixture st = main @
       [''anli_does_it_follow_r1'', ''anli_does_it_follow_r2'', ''anli_does_it_follow_r3'']" and
    c: "\<forall>x \<in> set main. \<exists>d s n t.
        (d, s) \<in> set (keys example_collection) \<and> (d, s) \<noteq> (''anli'', None) \<and>
        (Some d, s) \<in> set (do_eval m) \<and>
        n \<in> set (all_template_names (get_dataset example_collection d s)) \<and>
        get_item (get_dataset example_collection d s) n = Inr t \<and> original_task t \<and>
        x = get_task_name example_env d s n"
    unfolding a by blast
  from em e have main: "main = [''super_glue_rte_does_it_follow'']"
    by (simp add: append_eq_Cons_conv)
  then have "''super_glue_rte_does_it_follow'' \<in> set main" by simp
  with c have "\<exists>d s n t.
        (d, s) \<in> set (keys example_collection) \<and> (d, s) \<noteq> (''anli'', None) \<and>
        (Some d, s) \<in> set (do_eval m) \<and>
        n \<in> set (all_template_names (get_dataset example_collection d s)) \<and>
        get_item (get_dataset example_collection d s) n = Inr t \<and> original_task t \<and>
        ''super_glue_rte_does_it_follow'' = get_task_name example_env d s n"
    by (rule bspec)
  then obtain d s' n t where
    "(d, s') \<in> set (keys example_collection) \<and> (d, s') \<noteq> (''anli'', None) \<and>
        (Some d, s') \<in> set (do_eval m) \<and>
        n \<in> set (all_template_names (get_dataset example_collection d s')) \<and>
        get_item (get_dataset example_collection d s') n = Inr t \<and> original_task t \<and>
        ''super_glue_rte_does_it_follow'' = get_task_name example_env d s' n"
    by blast
  with s m em main show ?thesis by blast
qed

end
